theory Spec2Isabelle
  imports Complex_Main "HOL-Library.Sublist" "HOL-Library.Char_ord" "HOL-Library.List_Lexorder"
    "HOL-Library.AList" "HOL-Library.Log_Nat"
begin

section \<open>ivadomed/loader/adaptative.py: common values\<close>

text \<open>
  Python exceptions that the modelled functions can raise. A function that can raise
  returns \<open>error + 'a\<close>, with \<open>Inl\<close> for the exception.
\<close>

datatype error =
    KeyError | IndexError | ValueError | AttributeError | NameError
  | TypeError | FileNotFoundError | ZeroDivisionError

text \<open>Python's \<open>a in b\<close> on strings: \<open>a\<close> occurs in \<open>b\<close> as a contiguous block.\<close>

fun str_in :: "string \<Rightarrow> string \<Rightarrow> bool" where
  "str_in p [] = (p = [])"
| "str_in p (c # cs) = (prefix p (c # cs) \<or> str_in p cs)"

text \<open>\<open>s.split(sep)[0]\<close> and \<open>s.split(sep)[-1]\<close> for a separator of one character.\<close>

definition split_first :: "char \<Rightarrow> string \<Rightarrow> string" where
  "split_first sep s = takeWhile (\<lambda>ch. ch \<noteq> sep) s"

definition split_last :: "char \<Rightarrow> string \<Rightarrow> string" where
  "split_last sep s = rev (takeWhile (\<lambda>ch. ch \<noteq> sep) (rev s))"

text \<open>\<open>s.split(sep)\<close> for a separator of one character, and \<open>sep.join(xs)\<close>.\<close>

fun split_on :: "char \<Rightarrow> string \<Rightarrow> string list" where
  "split_on sep [] = [[]]"
| "split_on sep (ch # s) =
     (if ch = sep then [] # split_on sep s
      else (case split_on sep s of
              [] \<Rightarrow> [[ch]]
            | w # ws \<Rightarrow> (ch # w) # ws))"

fun join :: "string \<Rightarrow> string list \<Rightarrow> string" where
  "join sep [] = []"
| "join sep [x] = x"
| "join sep (x # y # ys) = x @ sep @ join sep (y # ys)"


subsection \<open>Regular expressions\<close>

text \<open>
  pandas' \<open>str.fullmatch\<close> and \<open>str.contains\<close> hand their pattern to Python's \<open>re\<close>. The
  two matchers are parameters of the functions below: \<open>fullmatch pat s\<close> and
  \<open>search pat s\<close>. For concrete runs, the matchers of the patterns whose only
  metacharacters are \<open>.\<close> (any character but a newline) and \<open>|\<close> (alternation) are
  defined here.
\<close>

type_synonym matcher = "string \<Rightarrow> string \<Rightarrow> bool"

fun match_prefix :: "string \<Rightarrow> string \<Rightarrow> bool" where
  "match_prefix [] s = True"
| "match_prefix (p # ps) [] = False"
| "match_prefix (p # ps) (ch # s) =
     (((p = CHR ''.'' \<and> ch \<noteq> CHR 0x0A) \<or> p = ch) \<and> match_prefix ps s)"

definition simple_fullmatch :: matcher where
  "simple_fullmatch pat s =
     list_ex (\<lambda>a. length a = length s \<and> match_prefix a s) (split_on CHR ''|'' pat)"

definition simple_search :: matcher where
  "simple_search pat s =
     list_ex (\<lambda>a. list_ex (match_prefix a) (suffixes s)) (split_on CHR ''|'' pat)"


subsection \<open>Doubles\<close>

text \<open>
  The values of IEEE doubles are rationals; an operation on doubles is the exact
  operation followed by rounding to the nearest double, ties to the even mantissa.
  \<open>binade x\<close> is the exponent \<open>e\<close> with \<open>2^e \<le> |x| < 2^(e+1)\<close>, looked for next to the
  difference of the bit lengths of numerator and denominator; \<open>dbl x\<close> rounds \<open>x\<close> to 53
  significant bits. The exponent range of doubles is not modelled: the quotients of
  counts and the pixel values that the code rounds are far inside it.
\<close>

definition round_half_even :: "rat \<Rightarrow> int" where
  "round_half_even y =
     (let f = \<lfloor>y\<rfloor>; d = y - of_int f
      in if d < 1 / 2 then f else if 1 / 2 < d then f + 1 else if even f then f else f + 1)"

definition binade :: "rat \<Rightarrow> int option" where
  "binade x =
     (let (p, q) = quotient_of \<bar>x\<bar>; e0 = bitlen p - bitlen q
      in if 2 powi e0 \<le> \<bar>x\<bar> \<and> \<bar>x\<bar> < 2 powi (e0 + 1) then Some e0
         else if 2 powi (e0 - 1) \<le> \<bar>x\<bar> \<and> \<bar>x\<bar> < 2 powi e0 then Some (e0 - 1)
         else None)"

definition dbl :: "rat \<Rightarrow> rat" where
  "dbl x =
     (case binade x of
        None \<Rightarrow> x
      | Some e \<Rightarrow> sgn x * of_int (round_half_even (\<bar>x\<bar> * 2 powi (52 - e))) * 2 powi (e - 52))"

text \<open>
  The search for the exponent never fails on a number other than zero, so \<open>dbl\<close> is the
  rounding to 53 bits everywhere; its relative error is at most \<open>2^-53\<close>.
\<close>

lemma round_half_even_err: "\<bar>of_int (round_half_even y) - y\<bar> \<le> 1 / 2"
proof -
  have "of_int \<lfloor>y\<rfloor> \<le> y" "y < of_int \<lfloor>y\<rfloor> + 1" by linarith+
  then show ?thesis
    by (auto simp: round_half_even_def Let_def abs_le_iff)
qed

lemma binade_Some: "binade x = Some e \<Longrightarrow> 2 powi e \<le> \<bar>x\<bar>"
  by (auto simp: binade_def Let_def split: prod.splits if_splits)

lemma dbl_rel_err: "\<bar>dbl x - x\<bar> \<le> \<bar>x\<bar> / 2 ^ 53"
proof (cases "binade x")
  case None
  then show ?thesis by (simp add: dbl_def)
next
  case (Some e)
  define y where "y = \<bar>x\<bar> * 2 powi (52 - e)"
  define m where "m = (of_int (round_half_even y) :: rat)"
  define s where "s = (2::rat) powi (e - 52)"
  have spos: "0 < s" by (simp add: s_def)
  have inv: "(2::rat) powi (52 - e) * s = 1"
    unfolding s_def by (simp flip: power_int_add)
  have xy: "\<bar>x\<bar> = y * s"
    unfolding y_def using inv by (simp add: mult.assoc)
  have "(2::rat) powi e * 2 powi (52 - e) \<le> y"
    unfolding y_def using binade_Some[OF Some] by (simp add: mult_right_mono)
  then have ylow: "2 ^ 52 \<le> y" by (simp flip: power_int_add)
  have err: "\<bar>m - y\<bar> \<le> 1 / 2" unfolding m_def by (rule round_half_even_err)
  have d: "dbl x = sgn x * m * s"
    by (simp add: dbl_def Some m_def y_def s_def)
  have "x = sgn x * \<bar>x\<bar>" by (simp add: sgn_mult_abs)
  then have "dbl x - x = sgn x * (m - y) * s"
    unfolding d xy by (metis (no_types) xy mult.assoc right_diff_distrib left_diff_distrib)
  then have "\<bar>dbl x - x\<bar> = \<bar>sgn x\<bar> * \<bar>m - y\<bar> * s"
    using spos by (simp add: abs_mult)
  also have "\<dots> \<le> 1 * (1 / 2) * s"
    using err spos by (intro mult_mono mult_nonneg_nonneg) (auto simp: abs_sgn_eq)
  also have "\<dots> \<le> (y / 2 ^ 53) * s"
    using ylow spos by (intro mult_right_mono) auto
  also have "\<dots> = \<bar>x\<bar> / 2 ^ 53" by (simp add: xy)
  finally show ?thesis .
qed

lemma dbl_lower:
  assumes "0 \<le> x"
  shows "x * (1 - 1 / 2 ^ 53) \<le> dbl x"
proof -
  have "x - dbl x \<le> \<bar>dbl x - x\<bar>" by linarith
  also have "\<dots> \<le> x / 2 ^ 53" using dbl_rel_err[of x] assms by simp
  finally show ?thesis by (simp add: algebra_simps)
qed

lemma dbl_upper:
  assumes "0 \<le> x"
  shows "dbl x \<le> x * (1 + 1 / 2 ^ 53)"
proof -
  have "dbl x - x \<le> \<bar>dbl x - x\<bar>" by linarith
  also have "\<dots> \<le> x / 2 ^ 53" using dbl_rel_err[of x] assms by simp
  finally show ?thesis by (simp add: algebra_simps)
qed

lemma double_division_over:
  fixes t :: rat
  assumes n: "0 < n" and t0: "0 \<le> t" and small: "t * of_nat n < 2 ^ 51"
    and k: "t * of_nat n + 1 \<le> of_nat k"
  shows "t < dbl (dbl (of_nat k) / dbl (of_nat n))"
proof -
  define u :: rat where "u = 1 / 2 ^ 53"
  define T where "T = t * of_nat n"
  define K :: rat where "K = of_nat k"
  define N :: rat where "N = of_nat n"
  have Npos: "0 < N" using n by (simp add: N_def)
  have T0: "0 \<le> T" using t0 by (simp add: T_def)
  have Kpos: "1 \<le> K" using k T0 by (simp add: K_def T_def)
  have KT: "T + 1 \<le> K" using k by (simp add: K_def T_def)
  have a: "K * (1 - u) \<le> dbl K" using dbl_lower[of K] Kpos by (simp add: u_def)
  have b_up: "dbl N \<le> N * (1 + u)" using dbl_upper[of N] Npos by (simp add: u_def)
  have b_lo: "N * (1 - u) \<le> dbl N" using dbl_lower[of N] Npos by (simp add: u_def)
  have upos: "0 < 1 - u" "0 < 1 + u" by (simp_all add: u_def)
  have bpos: "0 < dbl N" using b_lo Npos upos(1)
    by (meson less_le_trans mult_pos_pos)
  have apos: "0 \<le> K * (1 - u)" using Kpos upos by simp
  have dk: "0 \<le> dbl K" using apos a by linarith
  have q: "K * (1 - u) / (N * (1 + u)) \<le> dbl K / dbl N"
    by (rule frac_le[OF dk a bpos b_up])
  have qpos: "0 \<le> dbl K / dbl N" using a apos bpos by simp
  have "dbl K / dbl N * (1 - u) \<le> dbl (dbl K / dbl N)"
    using dbl_lower[OF qpos] by (simp add: u_def)
  moreover have "K * (1 - u) / (N * (1 + u)) * (1 - u) \<le> dbl K / dbl N * (1 - u)"
    by (rule mult_right_mono[OF q]) (use upos(1) in simp)
  ultimately have low: "K * (1 - u) / (N * (1 + u)) * (1 - u) \<le> dbl (dbl K / dbl N)"
    by linarith
  have lin: "T * (1 + u) < (T + 1) * ((1 - u) * (1 - u))"
    using T0 small unfolding T_def[symmetric] u_def by (simp add: algebra_simps)
  have "(T + 1) * ((1 - u) * (1 - u)) \<le> K * ((1 - u) * (1 - u))"
    using KT upos(1) by (simp add: mult_right_mono)
  with lin have "t * (N * (1 + u)) < K * (1 - u) * (1 - u)"
    by (simp add: T_def N_def mult.assoc mult.left_commute)
  then have "t < K * (1 - u) * (1 - u) / (N * (1 + u))"
    using Npos upos(2) by (simp add: pos_less_divide_eq)
  then have "t < K * (1 - u) / (N * (1 + u)) * (1 - u)"
    by (simp add: field_simps)
  with low show ?thesis unfolding K_def N_def by linarith
qed

lemma bitlen_powi_bounds:
  assumes "0 < (p::int)"
  shows "(2::rat) powi (bitlen p - 1) \<le> of_int p" and "(of_int p :: rat) < 2 powi bitlen p"
proof -
  from bitlen_bounds[OF assms] have b: "2 ^ nat (bitlen p - 1) \<le> p" "p < 2 ^ nat (bitlen p)"
    by auto
  have ge: "1 \<le> bitlen p" using assms by (auto simp: bitlen_alt_def)
  have "(of_int (2 ^ nat (bitlen p - 1)) :: rat) \<le> of_int p"
    using b(1) by (simp only: of_int_le_iff)
  then show "(2::rat) powi (bitlen p - 1) \<le> of_int p"
    using ge by (simp add: power_int_def)
  have "(of_int p :: rat) < of_int (2 ^ nat (bitlen p))"
    using b(2) by (simp only: of_int_less_iff)
  then show "(of_int p :: rat) < 2 powi bitlen p"
    using ge by (simp add: power_int_def)
qed

lemma binade_total:
  assumes "x \<noteq> 0"
  shows "\<exists>e. binade x = Some e \<and> 2 powi e \<le> \<bar>x\<bar> \<and> \<bar>x\<bar> < 2 powi (e + 1)"
proof -
  obtain p q where pq: "quotient_of \<bar>x\<bar> = (p, q)" by (cases "quotient_of \<bar>x\<bar>")
  have q: "0 < q" using quotient_of_denom_pos[OF pq] .
  have ax: "\<bar>x\<bar> = of_int p / of_int q" using quotient_of_div[OF pq] .
  have "0 < \<bar>x\<bar>" using assms by simp
  then have p: "0 < p" using ax q by (simp add: zero_less_divide_iff)
  note bp = bitlen_powi_bounds[OF p] and bq = bitlen_powi_bounds[OF q]
  define e0 where "e0 = bitlen p - bitlen q"
  have qpos: "(0::rat) < of_int q" using q by simp
  have up: "\<bar>x\<bar> < 2 powi (e0 + 1)"
  proof -
    have "of_int p / of_int q < (2::rat) powi bitlen p / of_int q"
      using bp(2) qpos by (simp add: divide_strict_right_mono)
    also have "\<dots> \<le> 2 powi bitlen p / 2 powi (bitlen q - 1)"
      using bq(1) q by (intro divide_left_mono) (auto intro!: mult_pos_pos)
    also have "\<dots> = 2 powi (bitlen p - (bitlen q - 1))"
      by (rule power_int_diff[symmetric]) simp
    also have "bitlen p - (bitlen q - 1) = e0 + 1"
      by (simp add: e0_def)
    finally show ?thesis by (simp add: ax)
  qed
  have lo: "2 powi (e0 - 1) \<le> \<bar>x\<bar>"
  proof -
    have "e0 - 1 = bitlen p - 1 - bitlen q"
      by (simp add: e0_def)
    then have "(2::rat) powi (e0 - 1) = 2 powi (bitlen p - 1 - bitlen q)"
      by (rule arg_cong)
    also have "\<dots> = 2 powi (bitlen p - 1) / 2 powi bitlen q"
      by (rule power_int_diff) simp
    also have "\<dots> \<le> of_int p / 2 powi bitlen q"
      using bp(1) by (simp add: divide_right_mono)
    also have "\<dots> \<le> of_int p / of_int q"
      using bq(2) p qpos by (intro divide_left_mono) (auto intro!: mult_pos_pos)
    finally show ?thesis by (simp add: ax)
  qed
  show ?thesis
  proof (cases "2 powi e0 \<le> \<bar>x\<bar>")
    case True
    with up have "binade x = Some e0"
      by (simp add: binade_def pq e0_def)
    with True up show ?thesis by blast
  next
    case False
    with lo have "binade x = Some (e0 - 1)"
      by (simp add: binade_def pq e0_def)
    with False lo show ?thesis by auto
  qed
qed

text \<open>Two roundings the code performs: \<open>1 / 3\<close> and \<open>0.1\<close> as doubles.\<close>

lemma dbl_third: "dbl (1 / 3) = 6004799503160661 / 18014398509481984"
  by code_simp

lemma dbl_tenth: "dbl (1 / 10) = 3602879701896397 / 36028797018963968"
  by code_simp

section \<open>BIDStoHDF5: selecting the subjects\<close>

text \<open>
  One row of \<open>bids_df.df\<close>, the table of the external directory index: the columns the
  converter reads. \<open>derivatives\<close> stands for the external
  \<open>bids_df.get_derivatives(subject, all_deriv)\<close> of the row's file, and \<open>mri_params\<close> for
  the names \<open>m\<close> at which the external \<open>imed_film.check_isMRIparam(m, metadata, ...)\<close>
  answers True for the row.
\<close>

record bids_row =
  filename :: string
  suffix :: string
  path :: string
  derivatives :: "string list"
  mri_params :: "string list"

datatype metadata_choice = MriParams | Contrasts | NoChoice

text \<open>The metadata record of an accepted subject: the row, its contrast, a bounding box
  (the first one of \<open>bounding_box_dict\<close>, the external \<open>load_bounding_boxes\<close>' result, when
  that dictionary is not empty).\<close>

record subject_metadata =
  md_row :: bids_row
  md_contrast :: string
  md_bounding_box :: "nat list option"

text \<open>
  An entry of \<open>self.filename_pairs\<close>:
  \<open>(subj_id, [path], target_filename, roi_filename, [metadata])\<close>.
\<close>

record filename_pair =
  fp_subj_id :: string
  fp_input :: "string list"
  fp_target :: "string option list"
  fp_roi :: "string list option"
  fp_metadata :: "subject_metadata list"

text \<open>
  The run state that \<open>process_subject\<close> mutates: the counter \<open>c\<close> per balanced contrast,
  \<open>self.filename_pairs\<close> and \<open>list_patients\<close>.
\<close>

record conv_state =
  c :: "string \<rightharpoonup> nat"
  filename_pairs :: "filename_pair list"
  list_patients :: "string list"

text \<open>
  \<open>is_contrast_over_threshold\<close>: for a contrast of \<open>contrast_balance\<close> the counter is
  incremented first and the fraction \<open>c / tot\<close> compared with the threshold; for any other
  contrast the function falls off its end and returns Python's None. The count is a
  Python int and the total a numpy integer: both are converted to doubles and divided
  as doubles. The threshold is the rational value of the configured number. A lookup
  that would fail is a KeyError. A total is never zero (\<open>make_tot\<close> below raises
  instead); dividing by one is an error here.
\<close>

definition is_contrast_over_threshold ::
  "(string \<rightharpoonup> nat) \<Rightarrow> (string \<rightharpoonup> nat) \<Rightarrow> string \<Rightarrow> (string \<rightharpoonup> rat)
     \<Rightarrow> error + ((string \<rightharpoonup> nat) \<times> bool option)" where
  "is_contrast_over_threshold cnt tot contrast contrast_balance =
     (case contrast_balance contrast of
        None \<Rightarrow> Inr (cnt, None)
      | Some t \<Rightarrow>
          (case cnt contrast of
             None \<Rightarrow> Inl KeyError
           | Some k \<Rightarrow>
               (let cnt' = cnt(contrast \<mapsto> k + 1) in
                case tot contrast of
                  None \<Rightarrow> Inl KeyError
                | Some n \<Rightarrow>
                    if n = 0 then Inl ZeroDivisionError
                    else Inr (cnt', Some (dbl (dbl (of_nat (k + 1)) / dbl (of_nat n)) > t)))))"

text \<open>
  \<open>str.contains('|'.join(names))\<close>: the names are joined into one pattern, which is
  searched for in the string.
\<close>

definition str_contains :: "matcher \<Rightarrow> string list \<Rightarrow> string \<Rightarrow> bool" where
  "str_contains search names s = search (join ''|'' names) s"

text \<open>The inner loop of \<open>get_filenames\<close> over the target suffixes, for one derivative.\<close>

definition set_targets :: "string list \<Rightarrow> string \<Rightarrow> string option list \<Rightarrow> string option list" where
  "set_targets target_suffix deriv target_filename =
     map (\<lambda>(sfx, old). if str_in sfx deriv then Some deriv else old)
       (zip target_suffix target_filename)"

fun get_filenames_loop ::
  "string list \<Rightarrow> string option \<Rightarrow> string list \<Rightarrow> string option list \<times> string list option
     \<Rightarrow> string option list \<times> string list option" where
  "get_filenames_loop target_suffix roi_suffix [] acc = acc"
| "get_filenames_loop target_suffix roi_suffix (deriv # ds) (tf, rf) =
     get_filenames_loop target_suffix roi_suffix ds
       (set_targets target_suffix deriv tf,
        (case roi_suffix of
           None \<Rightarrow> rf
         | Some r \<Rightarrow> if str_in r deriv then Some [deriv] else rf))"

definition get_filenames ::
  "matcher \<Rightarrow> bids_row list \<Rightarrow> bids_row \<Rightarrow> string list \<Rightarrow> string option
     \<Rightarrow> string option list \<times> string list option" where
  "get_filenames search bids_df row target_suffix roi_suffix =
     (let derivs = map path (filter (\<lambda>r. str_contains search (derivatives row) (filename r))
                               bids_df)
      in get_filenames_loop target_suffix roi_suffix derivs
           (replicate (length target_suffix) None, None))"

text \<open>Python's \<open>any\<close> over the target list: None and the empty string are falsy.\<close>

definition any_target :: "string option list \<Rightarrow> bool" where
  "any_target tf = list_ex (\<lambda>x. case x of None \<Rightarrow> False | Some s \<Rightarrow> s \<noteq> []) tf"

definition subj_id_of :: "string \<Rightarrow> string" where
  "subj_id_of subject = split_first CHR ''_'' (split_first CHR ''.'' subject)"

text \<open>
  \<open>self.metadata.keys()\<close>: the four MRI parameters when \<open>metadata_choice\<close> is
  \<open>'mri_params'\<close>, no key otherwise.
\<close>

definition metadata_keys :: "metadata_choice \<Rightarrow> string list" where
  "metadata_keys mc =
     (if mc = MriParams then [''FlipAngle'', ''RepetitionTime'', ''EchoTime'', ''Manufacturer'']
      else [])"

text \<open>
  \<open>process_subject\<close>. The balance check comes first and moves the counter; the filters on
  target, roi and MRI parameters come after it and return without appending.
\<close>

definition process_subject ::
  "matcher \<Rightarrow> bids_row list \<Rightarrow> string \<Rightarrow> bids_row list \<Rightarrow> (string \<rightharpoonup> nat) \<Rightarrow> (string \<rightharpoonup> rat)
     \<Rightarrow> string list \<Rightarrow> string option \<Rightarrow> (string \<times> nat list list) list
     \<Rightarrow> metadata_choice \<Rightarrow> conv_state \<Rightarrow> error + conv_state" where
  "process_subject search bids_df subject df_subjects tot contrast_balance target_suffix roi_suffix
       bounding_box_dict metadata_choice st =
     (case filter (\<lambda>r. filename r = subject) df_subjects of
        [] \<Rightarrow> Inl IndexError
      | row # _ \<Rightarrow>
          (let contrast = suffix row in
           case is_contrast_over_threshold (c st) tot contrast contrast_balance of
             Inl e \<Rightarrow> Inl e
           | Inr (cnt', is_over_thresh) \<Rightarrow>
               (let st1 = st\<lparr>c := cnt'\<rparr> in
                if is_over_thresh = Some True then Inr st1
                else
                  (let (target_filename, roi_filename) =
                         get_filenames search bids_df row target_suffix roi_suffix in
                   if \<not> any_target target_filename \<or> (roi_suffix \<noteq> None \<and> roi_filename = None)
                   then Inr st1
                   else
                     (case (if bounding_box_dict \<noteq> []
                            then (case map_of bounding_box_dict (path row) of
                                    None \<Rightarrow> Inl KeyError
                                  | Some [] \<Rightarrow> Inl IndexError
                                  | Some (b # _) \<Rightarrow> Inr (Some b))
                            else Inr None) of
                        Inl e \<Rightarrow> Inl e
                      | Inr bb \<Rightarrow>
                          (let metadata = \<lparr>md_row = row, md_contrast = contrast,
                                           md_bounding_box = bb\<rparr>;
                               are_mri_params =
                                 list_all (\<lambda>m. m \<in> set (mri_params row))
                                   (metadata_keys metadata_choice)
                           in if metadata_choice = MriParams \<and> \<not> are_mri_params then Inr st1
                              else Inr (st1\<lparr>
                                filename_pairs := filename_pairs st1 @
                                  [\<lparr>fp_subj_id = subj_id_of subject, fp_input = [path row],
                                    fp_target = target_filename, fp_roi = roi_filename,
                                    fp_metadata = [metadata]\<rparr>],
                                list_patients := list_patients st1 @ [subj_id_of subject]\<rparr>)))))))"

text \<open>The loop of the constructor over the sorted subject list.\<close>

fun process_subjects ::
  "matcher \<Rightarrow> bids_row list \<Rightarrow> string list \<Rightarrow> bids_row list \<Rightarrow> (string \<rightharpoonup> nat) \<Rightarrow> (string \<rightharpoonup> rat)
     \<Rightarrow> string list \<Rightarrow> string option \<Rightarrow> (string \<times> nat list list) list
     \<Rightarrow> metadata_choice \<Rightarrow> conv_state \<Rightarrow> error + conv_state" where
  "process_subjects search bids_df [] df_subjects tot cb ts rs bbd mc st = Inr st"
| "process_subjects search bids_df (subject # rest) df_subjects tot cb ts rs bbd mc st =
     (case process_subject search bids_df subject df_subjects tot cb ts rs bbd mc st of
        Inl e \<Rightarrow> Inl e
      | Inr st' \<Rightarrow> process_subjects search bids_df rest df_subjects tot cb ts rs bbd mc st')"

text \<open>
  \<open>tot\<close>: for every key of \<open>contrast_balance\<close> the number of selected rows whose suffix
  the key matches in full (\<open>str.fullmatch\<close>, the key being the pattern);
  \<open>value_counts()[True]\<close> is a KeyError when no row matches.
\<close>

fun make_tot :: "matcher \<Rightarrow> bids_row list \<Rightarrow> string list \<Rightarrow> error + (string \<rightharpoonup> nat)" where
  "make_tot fullmatch df_subjects [] = Inr Map.empty"
| "make_tot fullmatch df_subjects (k # ks) =
     (let n = length (filter (\<lambda>r. fullmatch k (suffix r)) df_subjects) in
      if n = 0 then Inl KeyError
      else (case make_tot fullmatch df_subjects ks of
              Inl e \<Rightarrow> Inl e
            | Inr m \<Rightarrow> Inr (m(k \<mapsto> n))))"

definition make_c :: "string list \<Rightarrow> (string \<rightharpoonup> nat)" where
  "make_c ks = map_of (map (\<lambda>k. (k, 0)) ks)"

text \<open>
  The first half of \<open>BIDStoHDF5.__init__\<close>, up to the end of the subject loop.
  \<open>contrast_balance\<close> is the dictionary as a list of items, None for the default argument
  (whose \<open>.keys()\<close> is an AttributeError).
\<close>

definition select_subjects ::
  "matcher \<Rightarrow> matcher \<Rightarrow> bids_row list \<Rightarrow> string list \<Rightarrow> string list \<Rightarrow> (string \<times> rat) list option
     \<Rightarrow> string option \<Rightarrow> (string \<times> nat list list) list \<Rightarrow> metadata_choice
     \<Rightarrow> error + conv_state" where
  "select_subjects fullmatch search bids_df subject_file_lst target_suffix contrast_balance
       roi_suffix
       bounding_box_dict metadata_choice =
     (let subject_file_lst = sort subject_file_lst;
          df_subjects = filter (\<lambda>r. filename r \<in> set subject_file_lst) bids_df
      in case contrast_balance of
           None \<Rightarrow> Inl AttributeError
         | Some items \<Rightarrow>
             (case make_tot fullmatch df_subjects (map fst items) of
                Inl e \<Rightarrow> Inl e
              | Inr tot \<Rightarrow>
                  process_subjects search bids_df subject_file_lst df_subjects tot (map_of items)
                    target_suffix roi_suffix bounding_box_dict metadata_choice
                    \<lparr>c = make_c (map fst items), filename_pairs = [], list_patients = []\<rparr>))"

text \<open>The accepted subjects of a contrast: the entries of \<open>filename_pairs\<close> that carry it.\<close>

definition accepted :: "string \<Rightarrow> conv_state \<Rightarrow> nat" where
  "accepted contrast st =
     length (filter (\<lambda>p. list_ex (\<lambda>m. md_contrast m = contrast) (fp_metadata p))
               (filename_pairs st))"

text \<open>
  The candidates of a contrast: what the constructor stores in \<open>tot\<close>, the number of rows
  of the listed subjects whose suffix the contrast matches.
\<close>

definition total_candidates :: "matcher \<Rightarrow> bids_row list \<Rightarrow> string list \<Rightarrow> string \<Rightarrow> nat" where
  "total_candidates fullmatch bids_df subject_file_lst contrast =
     length (filter (\<lambda>r. fullmatch contrast (suffix r))
               (filter (\<lambda>r. filename r \<in> set subject_file_lst) bids_df))"

text \<open>
  The complete subjects of a contrast: those the filters on target, roi and MRI parameters
  let through, that is the subjects accepted by a run with an empty \<open>contrast_balance\<close>.
\<close>

definition complete_subjects ::
  "matcher \<Rightarrow> matcher \<Rightarrow> bids_row list \<Rightarrow> string list \<Rightarrow> string list \<Rightarrow> string option
     \<Rightarrow> (string \<times> nat list list) list \<Rightarrow> metadata_choice \<Rightarrow> string \<Rightarrow> nat" where
  "complete_subjects fullmatch search bids_df subject_file_lst target_suffix roi_suffix bbd mc
       contrast =
     (case select_subjects fullmatch search bids_df subject_file_lst target_suffix (Some [])
             roi_suffix bbd mc of
        Inl e \<Rightarrow> 0
      | Inr st \<Rightarrow> accepted contrast st)"

text \<open>
  The loop invariant of the balance: for a contrast and a bound \<open>B\<close>, the accepted
  subjects are at most the counted ones, and at most \<open>B\<close>.
\<close>

definition balance_inv :: "string \<Rightarrow> int \<Rightarrow> conv_state \<Rightarrow> bool" where
  "balance_inv k B st =
     (case c st k of
        None \<Rightarrow> False
      | Some cnt \<Rightarrow> accepted k st \<le> cnt \<and> int (accepted k st) \<le> B)"

text \<open>
  A small data set: two T1 images, \<open>a\<close> with a mask only and \<open>b\<close> with a segmentation,
  and the two derivative files.
\<close>

definition ex_bids :: "bids_row list" where
  "ex_bids =
     [\<lparr>filename = ''a_T1.nii'', suffix = ''T1'', path = ''a/a_T1.nii'',
       derivatives = [''a_T1_mask.nii''], mri_params = []\<rparr>,
      \<lparr>filename = ''b_T1.nii'', suffix = ''T1'', path = ''b/b_T1.nii'',
       derivatives = [''b_T1_seg.nii''], mri_params = []\<rparr>,
      \<lparr>filename = ''a_T1_mask.nii'', suffix = ''mask'', path = ''der/a/a_T1_mask.nii'',
       derivatives = [], mri_params = []\<rparr>,
      \<lparr>filename = ''b_T1_seg.nii'', suffix = ''seg'', path = ''der/b/b_T1_seg.nii'',
       derivatives = [], mri_params = []\<rparr>]"

definition ex_subjects :: "string list" where
  "ex_subjects = [''b_T1.nii'', ''a_T1.nii'']"

text \<open>A data set of four T1 images, each with its segmentation.\<close>

definition ex_bids4 :: "bids_row list" where
  "ex_bids4 =
     [\<lparr>filename = ''a_T1.nii'', suffix = ''T1'', path = ''a/a_T1.nii'',
       derivatives = [''a_T1_seg.nii''], mri_params = []\<rparr>,
      \<lparr>filename = ''b_T1.nii'', suffix = ''T1'', path = ''b/b_T1.nii'',
       derivatives = [''b_T1_seg.nii''], mri_params = []\<rparr>,
      \<lparr>filename = ''c_T1.nii'', suffix = ''T1'', path = ''c/c_T1.nii'',
       derivatives = [''c_T1_seg.nii''], mri_params = []\<rparr>,
      \<lparr>filename = ''d_T1.nii'', suffix = ''T1'', path = ''d/d_T1.nii'',
       derivatives = [''d_T1_seg.nii''], mri_params = []\<rparr>,
      \<lparr>filename = ''a_T1_seg.nii'', suffix = ''seg'', path = ''der/a/a_T1_seg.nii'',
       derivatives = [], mri_params = []\<rparr>,
      \<lparr>filename = ''b_T1_seg.nii'', suffix = ''seg'', path = ''der/b/b_T1_seg.nii'',
       derivatives = [], mri_params = []\<rparr>,
      \<lparr>filename = ''c_T1_seg.nii'', suffix = ''seg'', path = ''der/c/c_T1_seg.nii'',
       derivatives = [], mri_params = []\<rparr>,
      \<lparr>filename = ''d_T1_seg.nii'', suffix = ''seg'', path = ''der/d/d_T1_seg.nii'',
       derivatives = [], mri_params = []\<rparr>]"

definition ex_subjects4 :: "string list" where
  "ex_subjects4 = [''d_T1.nii'', ''b_T1.nii'', ''a_T1.nii'', ''c_T1.nii'']"


subsection \<open>The balance invariant\<close>

lemma accepted_c_update [simp]: "accepted k (st\<lparr>c := m\<rparr>) = accepted k st"
  by (simp add: accepted_def)

lemma accepted_append:
  "accepted k (st\<lparr>filename_pairs := filename_pairs st @ [p], list_patients := lp\<rparr>) =
     accepted k st + (if list_ex (\<lambda>m. md_contrast m = k) (fp_metadata p) then 1 else 0)"
  by (simp add: accepted_def)

lemma over_threshold_cases:
  assumes "is_contrast_over_threshold cnt tot contrast cb = Inr (cnt', r)"
  shows "(cb contrast = None \<and> cnt' = cnt \<and> r = None) \<or>
         (\<exists>t k n. cb contrast = Some t \<and> cnt contrast = Some k \<and> tot contrast = Some n \<and> n \<noteq> 0 \<and>
            cnt' = cnt(contrast \<mapsto> k + 1) \<and>
            r = Some (dbl (dbl (of_nat (k + 1)) / dbl (of_nat n)) > t))"
  using assms
  by (auto simp: is_contrast_over_threshold_def Let_def split: option.splits if_splits)

lemma process_subject_cases:
  assumes "process_subject search bids_df subject df_subjects tot cb ts rs bbd mc st = Inr st'"
  shows "\<exists>row rest cnt' r. filter (\<lambda>r. filename r = subject) df_subjects = row # rest \<and>
           is_contrast_over_threshold (c st) tot (suffix row) cb = Inr (cnt', r) \<and>
           c st' = cnt' \<and>
           (filename_pairs st' = filename_pairs st \<or>
            (r \<noteq> Some True \<and>
             (\<exists>p. map md_contrast (fp_metadata p) = [suffix row] \<and>
                filename_pairs st' = filename_pairs st @ [p])))"
  using assms
  by (auto simp: process_subject_def Let_def
           split: list.splits sum.splits prod.splits if_splits option.splits)

text \<open>
  A count that the double comparison lets through is at most \<open>ceil (t * n)\<close>, as long as
  \<open>t * n\<close> stays below \<open>2^51\<close>.
\<close>

lemma not_over_count_le:
  fixes t :: rat
  assumes n: "n \<noteq> 0" and t0: "0 \<le> t" and small: "t * of_nat n < 2 ^ 51"
    and acc: "\<not> t < dbl (dbl (of_nat k) / dbl (of_nat n))"
  shows "int k \<le> \<lceil>t * of_nat n\<rceil>"
proof (rule ccontr)
  assume "\<not> int k \<le> \<lceil>t * of_nat n\<rceil>"
  then have "\<lceil>t * of_nat n\<rceil> + 1 \<le> int k" by simp
  then have "(of_int (\<lceil>t * of_nat n\<rceil> + 1) :: rat) \<le> of_int (int k)"
    by (simp only: of_int_le_iff)
  then have "(of_int \<lceil>t * of_nat n\<rceil> :: rat) + 1 \<le> of_nat k" by simp
  moreover have "t * of_nat n \<le> of_int \<lceil>t * of_nat n\<rceil>" by (rule le_of_int_ceiling)
  ultimately have "t * of_nat n + 1 \<le> of_nat k" by linarith
  from double_division_over[OF _ t0 small this] n acc show False by simp
qed

lemma process_subject_inv:
  assumes ok: "process_subject search bids_df subject df_subjects tot cb ts rs bbd mc st = Inr st'"
    and cb: "cb k = Some t" and tot: "tot k = Some n" and n: "n \<noteq> 0"
    and t0: "0 \<le> t" and small: "t * of_nat n < 2 ^ 51"
    and inv: "balance_inv k \<lceil>t * of_nat n\<rceil> st"
  shows "balance_inv k \<lceil>t * of_nat n\<rceil> st'"
proof -
  from process_subject_cases[OF ok] obtain row :: bids_row and rest cnt' r where
    ot: "is_contrast_over_threshold (c st) tot (suffix row) cb = Inr (cnt', r)" and
    c': "c st' = cnt'" and
    fp: "filename_pairs st' = filename_pairs st \<or>
            (r \<noteq> Some True \<and>
             (\<exists>p. map md_contrast (fp_metadata p) = [suffix row] \<and>
                filename_pairs st' = filename_pairs st @ [p]))"
    by (elim exE conjE) (rule that, assumption+)
  from inv obtain cnt where cnt: "c st k = Some cnt" "accepted k st \<le> cnt"
      "int (accepted k st) \<le> \<lceil>t * of_nat n\<rceil>"
    by (auto simp: balance_inv_def split: option.splits)
  show ?thesis
  proof (cases "suffix row = k")
    case False
    with over_threshold_cases[OF ot] have ck: "c st' k = Some cnt"
      using cnt c' by auto
    have "accepted k st' = accepted k st"
      using fp False by (auto simp: accepted_def list_ex_iff dest: arg_cong[where f=set])
    then show ?thesis using ck cnt by (simp add: balance_inv_def)
  next
    case True
    with over_threshold_cases[OF ot] cb cnt tot c'
    have ck: "c st' k = Some (cnt + 1)"
      and r: "r = Some (dbl (dbl (of_nat (cnt + 1)) / dbl (of_nat n)) > t)"
      by auto
    from fp show ?thesis
    proof
      assume "filename_pairs st' = filename_pairs st"
      then have "accepted k st' = accepted k st" by (simp add: accepted_def)
      then show ?thesis using ck cnt by (simp add: balance_inv_def)
    next
      assume "r \<noteq> Some True \<and>
             (\<exists>p. map md_contrast (fp_metadata p) = [suffix row] \<and>
                filename_pairs st' = filename_pairs st @ [p])"
      then obtain p where nr: "r \<noteq> Some True"
        and s: "filename_pairs st' = filename_pairs st @ [p]" by blast
      from nr r have "\<not> t < dbl (dbl (of_nat (cnt + 1)) / dbl (of_nat n))" by auto
      from not_over_count_le[OF n t0 small this]
      have le: "int (cnt + 1) \<le> \<lceil>t * of_nat n\<rceil>" .
      have acc: "accepted k st' \<le> accepted k st + 1"
        using s by (simp add: accepted_def)
      then have le3: "accepted k st' \<le> cnt + 1" using cnt(2) by linarith
      then have "int (accepted k st') \<le> \<lceil>t * of_nat n\<rceil>" using le by linarith
      then show ?thesis using ck le3 by (simp add: balance_inv_def)
    qed
  qed
qed

lemma process_subjects_inv:
  assumes "process_subjects search bids_df subs df_subjects tot cb ts rs bbd mc st = Inr st'"
    and "cb k = Some t" and "tot k = Some n" and "n \<noteq> 0"
    and "0 \<le> t" and "t * of_nat n < 2 ^ 51"
    and "balance_inv k \<lceil>t * of_nat n\<rceil> st"
  shows "balance_inv k \<lceil>t * of_nat n\<rceil> st'"
  using assms
proof (induction subs arbitrary: st)
  case Nil
  then show ?case by simp
next
  case (Cons s subs)
  from Cons.prems(1) obtain st1 where
    s1: "process_subject search bids_df s df_subjects tot cb ts rs bbd mc st = Inr st1" and
    s2: "process_subjects search bids_df subs df_subjects tot cb ts rs bbd mc st1 = Inr st'"
    by (auto split: sum.splits)
  from process_subject_inv[OF s1 Cons.prems(2-7)]
  have "balance_inv k \<lceil>t * of_nat n\<rceil> st1" .
  from Cons.IH[OF s2 Cons.prems(2-6) this] show ?case .
qed

lemma make_tot_lookup:
  "make_tot fullmatch df ks = Inr tot \<Longrightarrow> k \<in> set ks \<Longrightarrow>
     tot k = Some (length (filter (\<lambda>r. fullmatch k (suffix r)) df)) \<and>
     length (filter (\<lambda>r. fullmatch k (suffix r)) df) \<noteq> 0"
  by (induction ks arbitrary: tot) (auto simp: Let_def split: if_splits sum.splits)

lemma make_c_lookup: "k \<in> set ks \<Longrightarrow> make_c ks k = Some 0"
  by (induction ks) (auto simp: make_c_def)

text \<open>
  C1, as the code has it. For a run of the converter's subject selection that returns, a
  contrast with a configured threshold \<open>t \<ge> 0\<close> and \<open>tot\<close> candidates, \<open>t * tot\<close> below
  \<open>2^51\<close>, has at most \<open>ceil (t * tot)\<close> accepted subjects (entries of \<open>filename_pairs\<close>);
  \<open>t = 0\<close> and \<open>t = 1\<close> are included. The comparison is the code's, on doubles.
\<close>

theorem contrast_balance_bound:
  assumes run: "select_subjects fullmatch search bids_df subject_file_lst target_suffix
                  (Some items) roi_suffix bbd mc = Inr st"
    and t: "map_of items contrast = Some t" and t0: "0 \<le> t"
    and small: "t * of_nat (total_candidates fullmatch bids_df subject_file_lst contrast) < 2 ^ 51"
  shows "int (accepted contrast st)
           \<le> \<lceil>t * of_nat (total_candidates fullmatch bids_df subject_file_lst contrast)\<rceil>"
proof -
  let ?df = "filter (\<lambda>r. filename r \<in> set (sort subject_file_lst)) bids_df"
  let ?n = "total_candidates fullmatch bids_df subject_file_lst contrast"
  from run obtain tot where
    tot: "make_tot fullmatch ?df (map fst items) = Inr tot" and
    ps: "process_subjects search bids_df (sort subject_file_lst) ?df tot (map_of items)
           target_suffix roi_suffix bbd mc
           \<lparr>c = make_c (map fst items), filename_pairs = [], list_patients = []\<rparr> = Inr st"
    by (auto simp: select_subjects_def Let_def split: sum.splits)
  have kin: "contrast \<in> set (map fst items)"
    using t by (metis map_of_eq_None_iff option.distinct(1) set_map)
  from make_tot_lookup[OF tot kin] have n: "tot contrast = Some ?n" "?n \<noteq> 0"
    by (simp_all add: total_candidates_def)
  have "0 \<le> t * of_nat ?n" using t0 by simp
  then have "0 \<le> \<lceil>t * of_nat ?n\<rceil>" by (simp add: zero_le_ceiling)
  then have init: "balance_inv contrast \<lceil>t * of_nat ?n\<rceil>
      \<lparr>c = make_c (map fst items), filename_pairs = [], list_patients = []\<rparr>"
    using make_c_lookup[OF kin] by (simp add: balance_inv_def accepted_def)
  from process_subjects_inv[OF ps t n t0 small init]
  show ?thesis
    by (auto simp: balance_inv_def split: option.splits)
qed

text \<open>
  Four complete T1 subjects at threshold 1/2: the first two are accepted, the third and
  the fourth are over the threshold, and two is the bound.
\<close>

theorem contrast_balance_bound_witness:
  "(case select_subjects simple_fullmatch simple_search ex_bids4 ex_subjects4 [''_seg'']
           (Some [(''T1'', 1 / 2)]) None [] NoChoice of
      Inl e \<Rightarrow> False
    | Inr st \<Rightarrow> accepted ''T1'' st = 2 \<and>
        total_candidates simple_fullmatch ex_bids4 ex_subjects4 ''T1'' = 4 \<and>
        int (accepted ''T1'' st)
          \<le> \<lceil>1 / 2 * of_nat (total_candidates simple_fullmatch ex_bids4 ex_subjects4 ''T1'')\<rceil>)"
proof -
  let ?run = "select_subjects simple_fullmatch simple_search ex_bids4 ex_subjects4 [''_seg'']
                (Some [(''T1'', 1 / 2)]) None [] NoChoice"
  have "case ?run of Inl e \<Rightarrow> False | Inr st \<Rightarrow> accepted ''T1'' st = 2"
    by code_simp
  then obtain st where run: "?run = Inr st" and acc: "accepted ''T1'' st = 2"
    by (cases ?run) auto
  have tot: "total_candidates simple_fullmatch ex_bids4 ex_subjects4 ''T1'' = 4"
    by code_simp
  have t: "map_of [(''T1'', 1 / 2 :: rat)] ''T1'' = Some (1 / 2)" by simp
  have t0: "(0::rat) \<le> 1 / 2" by simp
  have small: "(1 / 2 :: rat)
      * of_nat (total_candidates simple_fullmatch ex_bids4 ex_subjects4 ''T1'') < 2 ^ 51"
    by (simp add: tot)
  from contrast_balance_bound[OF run t t0 small] acc run tot show ?thesis by simp
qed

text \<open>
  The bound as the claim states it, for every configured threshold, fails at a negative
  one: with \<open>t = -1/2\<close> and two candidates nobody is accepted, and \<open>ceil (t * tot)\<close> is
  \<open>-1\<close>.
\<close>

theorem contrast_balance_negative_counterexample:
  "\<not> (\<forall>bids_df subject_file_lst target_suffix items roi_suffix bbd mc st contrast t.
        select_subjects simple_fullmatch simple_search bids_df subject_file_lst target_suffix
          (Some items) roi_suffix bbd mc = Inr st \<longrightarrow>
        map_of items contrast = Some t \<longrightarrow>
        int (accepted contrast st)
          \<le> \<lceil>t * of_nat (total_candidates simple_fullmatch bids_df subject_file_lst contrast)\<rceil>)"
proof
  assume a: "\<forall>bids_df subject_file_lst target_suffix items roi_suffix bbd mc st contrast t.
        select_subjects simple_fullmatch simple_search bids_df subject_file_lst target_suffix
          (Some items) roi_suffix bbd mc = Inr st \<longrightarrow>
        map_of items contrast = Some t \<longrightarrow>
        int (accepted contrast st)
          \<le> \<lceil>t * of_nat (total_candidates simple_fullmatch bids_df subject_file_lst contrast)\<rceil>"
  let ?run = "select_subjects simple_fullmatch simple_search ex_bids ex_subjects [''_seg'']
                (Some [(''T1'', - (1 / 2))]) None [] NoChoice"
  have "case ?run of Inl e \<Rightarrow> False | Inr st \<Rightarrow> accepted ''T1'' st = 0"
    by code_simp
  then obtain st where run: "?run = Inr st" and acc: "accepted ''T1'' st = 0"
    by (cases ?run) auto
  have tot: "total_candidates simple_fullmatch ex_bids ex_subjects ''T1'' = 2"
    by code_simp
  have t: "map_of [(''T1'', - (1 / 2) :: rat)] ''T1'' = Some (- (1 / 2))" by simp
  from a[rule_format, OF run t] show False
    by (simp add: acc tot)
qed

text \<open>
  C9. Whenever \<open>process_subject\<close> returns for a subject whose contrast is in the balance
  configuration, the contrast's running count has gone up by one, whether or not the
  subject was appended to \<open>filename_pairs\<close>: the count moves before the filters on
  target, roi and MRI parameters run. Consequently there is a run in which the accepted
  subjects of a balanced contrast stay strictly below the threshold fraction of the
  candidates although the complete subjects would fill it.
\<close>

theorem quota_consumed_before_filters:
  "(\<forall>search bids_df subject df_subjects tot cb ts rs bbd mc st st' row rest t k.
      process_subject search bids_df subject df_subjects tot cb ts rs bbd mc st = Inr st' \<longrightarrow>
      filter (\<lambda>r. filename r = subject) df_subjects = row # rest \<longrightarrow>
      cb (suffix row) = Some t \<longrightarrow> c st (suffix row) = Some k \<longrightarrow>
      c st' (suffix row) = Some (k + 1)) \<and>
   (\<exists>bids_df subject_file_lst ts items rs bbd mc contrast t st.
      select_subjects simple_fullmatch simple_search bids_df subject_file_lst ts (Some items)
        rs bbd mc = Inr st \<and>
      map_of items contrast = Some t \<and>
      of_nat (accepted contrast st)
        < t * of_nat (total_candidates simple_fullmatch bids_df subject_file_lst contrast) \<and>
      t * of_nat (total_candidates simple_fullmatch bids_df subject_file_lst contrast)
        \<le> of_nat (complete_subjects simple_fullmatch simple_search bids_df subject_file_lst
                     ts rs bbd mc contrast))"
proof (intro conjI allI impI)
  fix search bids_df subject df_subjects tot cb ts rs bbd mc st st'
    and row :: bids_row and rest t k
  assume ok: "process_subject search bids_df subject df_subjects tot cb ts rs bbd mc st = Inr st'"
    and row: "filter (\<lambda>r. filename r = subject) df_subjects = row # rest"
    and cb: "cb (suffix row) = Some t" and k: "c st (suffix row) = Some k"
  from process_subject_cases[OF ok] row obtain cnt' r where
    ot: "is_contrast_over_threshold (c st) tot (suffix row) cb = Inr (cnt', r)"
    and c': "c st' = cnt'"
    by auto
  from over_threshold_cases[OF ot] cb k c' show "c st' (suffix row) = Some (k + 1)"
    by auto
next
  let ?run = "select_subjects simple_fullmatch simple_search ex_bids ex_subjects [''_seg'']
                (Some [(''T1'', 1 / 2)]) None [] NoChoice"
  have "case ?run of Inl e \<Rightarrow> False | Inr st \<Rightarrow> accepted ''T1'' st = 0"
    by code_simp
  then obtain st where run: "?run = Inr st" and acc: "accepted ''T1'' st = 0"
    by (cases ?run) auto
  have tot: "total_candidates simple_fullmatch ex_bids ex_subjects ''T1'' = 2" by code_simp
  have compl: "complete_subjects simple_fullmatch simple_search ex_bids ex_subjects [''_seg'']
                 None [] NoChoice ''T1'' = 1"
    by code_simp
  have "map_of [(''T1'', 1 / 2 :: rat)] ''T1'' = Some (1 / 2)" by simp
  with run acc tot compl
  have "select_subjects simple_fullmatch simple_search ex_bids ex_subjects [''_seg'']
          (Some [(''T1'', 1 / 2)]) None [] NoChoice = Inr st \<and>
      map_of [(''T1'', 1 / 2 :: rat)] ''T1'' = Some (1 / 2) \<and>
      of_nat (accepted ''T1'' st)
        < (1 / 2 :: rat) * of_nat (total_candidates simple_fullmatch ex_bids ex_subjects ''T1'') \<and>
      (1 / 2 :: rat) * of_nat (total_candidates simple_fullmatch ex_bids ex_subjects ''T1'')
        \<le> of_nat (complete_subjects simple_fullmatch simple_search ex_bids ex_subjects
                     [''_seg''] None [] NoChoice ''T1'')"
    by simp
  then show "\<exists>bids_df subject_file_lst ts items rs bbd mc contrast t st.
      select_subjects simple_fullmatch simple_search bids_df subject_file_lst ts (Some items)
        rs bbd mc = Inr st \<and>
      map_of items contrast = Some t \<and>
      of_nat (accepted contrast st)
        < t * of_nat (total_candidates simple_fullmatch bids_df subject_file_lst contrast) \<and>
      t * of_nat (total_candidates simple_fullmatch bids_df subject_file_lst contrast)
        \<le> of_nat (complete_subjects simple_fullmatch simple_search bids_df subject_file_lst
                     ts rs bbd mc contrast)"
    by blast
qed

text \<open>
  At the data set above with threshold 1/2: subject \<open>a\<close> has no segmentation and is
  rejected by the target filter, yet the count of T1 is 1 after it.
\<close>

theorem quota_consumed_before_filters_witness:
  "(case process_subject simple_search ex_bids ''a_T1.nii'' ex_bids [''T1'' \<mapsto> 2]
           [''T1'' \<mapsto> 1 / 2] [''_seg''] None [] NoChoice
           \<lparr>c = [''T1'' \<mapsto> 0], filename_pairs = [], list_patients = []\<rparr> of
      Inl e \<Rightarrow> False
    | Inr st' \<Rightarrow> filename_pairs st' = [] \<and> c st' ''T1'' = Some 1)"
proof -
  let ?st = "\<lparr>c = [''T1'' \<mapsto> 0::nat], filename_pairs = [], list_patients = []\<rparr>"
  let ?run = "process_subject simple_search ex_bids ''a_T1.nii'' ex_bids [''T1'' \<mapsto> 2]
           [''T1'' \<mapsto> 1 / 2] [''_seg''] None [] NoChoice ?st"
  have "case ?run of Inl e \<Rightarrow> False | Inr st' \<Rightarrow> filename_pairs st' = []"
    by code_simp
  then obtain st' where run: "?run = Inr st'" and fp: "filename_pairs st' = []"
    by (cases ?run) auto
  have row: "filter (\<lambda>r. filename r = ''a_T1.nii'') ex_bids = [hd ex_bids]"
    by (simp add: ex_bids_def)
  have sfx: "suffix (hd ex_bids) = ''T1''" by (simp add: ex_bids_def)
  have cb: "[''T1'' \<mapsto> 1 / 2 :: rat] (suffix (hd ex_bids)) = Some (1 / 2)" by (simp add: sfx)
  have k: "c ?st (suffix (hd ex_bids)) = Some 0" by (simp add: sfx)
  have "c st' (suffix (hd ex_bids)) = Some (0 + 1)"
    by (rule quota_consumed_before_filters[THEN conjunct1, rule_format, OF run row cb k])
  with run fp sfx show ?thesis by simp
qed


section \<open>Dataframe: the index table\<close>

text \<open>
  Pixel data in exact arithmetic: a slice is a 2D array, a volume a stack of slices.
  What a read of a container dataset returns is a slice (scalar selector) or a stack.
\<close>

type_synonym slice2d = "rat list list"
type_synonym volume = "slice2d list"

datatype array = A2 slice2d | A3 volume

text \<open>
  A cell of the table: a string (a container path, a subject, or the sentinel \<open>'None'\<close>),
  pandas' null \<open>np.nan\<close>, a slice index or an array of slice indices (column \<open>Slices\<close>),
  or an array loaded into RAM.
\<close>

datatype cell = Str string | NaN | Idx nat | IdxList "nat list" | Arr array

type_synonym row = "string \<Rightarrow> cell"

record dataframe =
  df_columns :: "string list"
  df_rows :: "row list"

text \<open>
  \<open>df[contrasts].replace(to_replace='None', value=np.nan)\<close>, assigned back to the same
  columns: the cells of the listed columns that hold the sentinel become null.
\<close>

definition replace_none :: "string list \<Rightarrow> row \<Rightarrow> row" where
  "replace_none contrasts r =
     (\<lambda>col. if col \<in> set contrasts \<and> r col = Str ''None'' then NaN else r col)"

text \<open>\<open>df.dropna()\<close> has no \<open>subset\<close>: a row goes when any of its columns is null.\<close>

definition isna_row :: "string list \<Rightarrow> row \<Rightarrow> bool" where
  "isna_row cols r = list_ex (\<lambda>col. r col = NaN) cols"

definition dropna :: "dataframe \<Rightarrow> dataframe" where
  "dropna df = df\<lparr>df_rows := filter (\<lambda>r. \<not> isna_row (df_columns df) r) (df_rows df)\<rparr>"

text \<open>
  \<open>Dataframe.clean\<close>. Selecting a column the table does not have is a KeyError; with a
  column listed twice the selection has more columns than the key, and the assignment
  is a ValueError.
\<close>

definition clean :: "string list \<Rightarrow> dataframe \<Rightarrow> error + dataframe" where
  "clean contrasts df =
     (if \<not> list_all (\<lambda>col. col \<in> set (df_columns df)) contrasts then Inl KeyError
      else if \<not> distinct contrasts then Inl ValueError
      else Inr (dropna (df\<lparr>df_rows := map (replace_none contrasts) (df_rows df)\<rparr>)))"

text \<open>A row holds the missing sentinel in at least one of the listed columns.\<close>

definition has_sentinel :: "string list \<Rightarrow> row \<Rightarrow> bool" where
  "has_sentinel contrasts r = list_ex (\<lambda>col. r col = Str ''None'') contrasts"

text \<open>No cell of the table is null (as in a table that \<open>create_df\<close> has just built).\<close>

definition no_nulls :: "dataframe \<Rightarrow> bool" where
  "no_nulls df = list_all (\<lambda>r. \<not> isna_row (df_columns df) r) (df_rows df)"

text \<open>
  An index table as \<open>load_dataframe\<close> reads it back from a saved file in which pandas
  takes the cell of the subject for a missing value (a subject called \<open>NA\<close>): the only
  row has its T1, and a null under \<open>Subjects\<close>.
\<close>

definition ex_null_table :: dataframe where
  "ex_null_table =
     \<lparr>df_columns = [''T1'', ''gt'', ''ROI'', ''Slices'', ''Subjects''],
      df_rows = [(\<lambda>col. Str ''None'')
                   (''T1'' := Str ''NA/inputs/T1'', ''Slices'' := Idx 0, ''Subjects'' := NaN)]\<rparr>"

text \<open>A table of two rows without nulls; the second row has no T1.\<close>

definition ex_table :: dataframe where
  "ex_table =
     \<lparr>df_columns = [''T1'', ''gt''],
      df_rows = [(\<lambda>col. Str ''sub-01/inputs/T1'')(''gt'' := Str ''None''),
                 (\<lambda>col. Str ''None'')]\<rparr>"


subsection \<open>What clean drops\<close>

lemma replace_none_id:
  "\<not> has_sentinel contrasts r \<Longrightarrow> replace_none contrasts r = r"
  by (auto simp: has_sentinel_def replace_none_def list_ex_iff fun_eq_iff)

lemma isna_replace_none:
  "isna_row cols (replace_none contrasts r) \<longleftrightarrow>
     isna_row cols r \<or> list_ex (\<lambda>col. col \<in> set cols \<and> r col = Str ''None'') contrasts"
  by (auto simp: isna_row_def replace_none_def list_ex_iff)

lemma clean_rows:
  assumes "set contrasts \<subseteq> set (df_columns df)" and "distinct contrasts"
  shows "clean contrasts df =
           Inr (df\<lparr>df_rows := map (replace_none contrasts)
                  (filter (\<lambda>r. \<not> isna_row (df_columns df) r \<and> \<not> has_sentinel contrasts r)
                     (df_rows df))\<rparr>)"
proof -
  have all: "list_all (\<lambda>col. col \<in> set (df_columns df)) contrasts"
    using assms by (auto simp: list_all_iff)
  have eq: "list_ex (\<lambda>col. col \<in> set (df_columns df) \<and> r col = Str ''None'') contrasts
            = has_sentinel contrasts r" for r
    using assms by (auto simp: has_sentinel_def list_ex_iff)
  show ?thesis
    using assms(2) by (simp add: clean_def all dropna_def filter_map o_def isna_replace_none eq)
qed

text \<open>
  What \<open>clean(columns)\<close> does when the listed columns are distinct columns of the table:
  it turns the sentinel into a null in the listed columns only and keeps, in order and
  unchanged, exactly the rows that have neither the sentinel in a listed column nor a
  null in any column of the table. For a table without null cells, with \<open>k\<close> rows of
  which \<open>m\<close> hold the sentinel in a listed column, these are the other \<open>k - m\<close> rows.
\<close>

lemma clean_drops_rows:
  assumes cols: "set contrasts \<subseteq> set (df_columns df)" and dist: "distinct contrasts"
  shows "\<exists>df'. clean contrasts df = Inr df' \<and>
           df_columns df' = df_columns df \<and>
           df_rows df' = filter (\<lambda>r. \<not> has_sentinel contrasts r \<and> \<not> isna_row (df_columns df) r)
                           (df_rows df) \<and>
           no_nulls df' \<and>
           (no_nulls df \<longrightarrow>
              df_rows df' = filter (\<lambda>r. \<not> has_sentinel contrasts r) (df_rows df) \<and>
              length (df_rows df') + length (filter (has_sentinel contrasts) (df_rows df))
                = length (df_rows df))"
proof -
  define keep where
    "keep = filter (\<lambda>r. \<not> has_sentinel contrasts r \<and> \<not> isna_row (df_columns df) r) (df_rows df)"
  have f: "filter (\<lambda>r. \<not> isna_row (df_columns df) r \<and> \<not> has_sentinel contrasts r) (df_rows df)
           = keep"
    unfolding keep_def by (intro filter_cong) auto
  have m: "map (replace_none contrasts) keep = keep"
    unfolding keep_def by (rule map_idI) (simp add: replace_none_id)
  have c: "clean contrasts df = Inr (df\<lparr>df_rows := keep\<rparr>)"
    by (simp add: clean_rows[OF cols dist] f m)
  have nn': "no_nulls (df\<lparr>df_rows := keep\<rparr>)"
    by (auto simp: no_nulls_def list_all_iff keep_def)
  have imp: "keep = filter (\<lambda>r. \<not> has_sentinel contrasts r) (df_rows df) \<and>
        length keep + length (filter (has_sentinel contrasts) (df_rows df)) = length (df_rows df)"
    if nn: "no_nulls df"
  proof -
    have k: "keep = filter (\<lambda>r. \<not> has_sentinel contrasts r) (df_rows df)"
      unfolding keep_def using nn by (intro filter_cong) (auto simp: no_nulls_def list_all_iff)
    show ?thesis
      unfolding k
      using sum_length_filter_compl[of "has_sentinel contrasts" "df_rows df"] by simp
  qed
  have "clean contrasts df = Inr (df\<lparr>df_rows := keep\<rparr>) \<and>
        df_columns (df\<lparr>df_rows := keep\<rparr>) = df_columns df \<and>
        df_rows (df\<lparr>df_rows := keep\<rparr>) = keep \<and>
        no_nulls (df\<lparr>df_rows := keep\<rparr>) \<and>
        (no_nulls df \<longrightarrow>
           df_rows (df\<lparr>df_rows := keep\<rparr>) = filter (\<lambda>r. \<not> has_sentinel contrasts r) (df_rows df) \<and>
           length (df_rows (df\<lparr>df_rows := keep\<rparr>)) +
             length (filter (has_sentinel contrasts) (df_rows df)) = length (df_rows df))"
    using c nn' imp sum_length_filter_compl[of "has_sentinel contrasts" "df_rows df"]
    by (auto simp: add.commute)
  then show ?thesis unfolding keep_def by blast
qed

lemma clean_drops_rows_example:
  "set [''T1''] \<subseteq> set (df_columns ex_table) \<and> no_nulls ex_table \<and>
   length (df_rows ex_table) = 2 \<and>
   length (filter (has_sentinel [''T1'']) (df_rows ex_table)) = 1 \<and>
   (\<exists>df'. clean [''T1''] ex_table = Inr df' \<and> length (df_rows df') = 1 \<and> no_nulls df')"
proof -
  have cols: "set [''T1''] \<subseteq> set (df_columns ex_table)" by (simp add: ex_table_def)
  have nn: "no_nulls ex_table" by (simp add: ex_table_def no_nulls_def isna_row_def)
  have k: "length (df_rows ex_table) = 2" by (simp add: ex_table_def)
  have m: "length (filter (has_sentinel [''T1'']) (df_rows ex_table)) = 1"
    by (simp add: ex_table_def has_sentinel_def)
  have dist: "distinct [''T1'']" by simp
  from clean_drops_rows[OF cols dist] obtain df' where
    c: "clean [''T1''] ex_table = Inr df'" and nn': "no_nulls df'" and
    len: "no_nulls ex_table \<longrightarrow>
            df_rows df' = filter (\<lambda>r. \<not> has_sentinel [''T1''] r) (df_rows ex_table) \<and>
            length (df_rows df') + length (filter (has_sentinel [''T1'']) (df_rows ex_table))
              = length (df_rows ex_table)"
    by blast
  from len nn have "length (df_rows df') + length (filter (has_sentinel [''T1'']) (df_rows ex_table))
              = length (df_rows ex_table)" by blast
  with k m have "length (df_rows df') = 1" by linarith
  with cols nn k m c nn' show ?thesis by blast
qed

text \<open>
  C2 at a table with a null in a column that is not listed. The only row of
  \<open>ex_null_table\<close> has its T1, so no row holds the sentinel in the listed column and the
  claim keeps the row; \<open>clean(['T1'])\<close> drops it, for the null under \<open>Subjects\<close>:
  \<open>dropna()\<close> is called without \<open>subset=contrasts\<close>.
\<close>

theorem clean_drops_row_for_unlisted_null:
  "length (df_rows ex_null_table) = 1 \<and>
   length (filter (has_sentinel [''T1'']) (df_rows ex_null_table)) = 0 \<and>
   clean [''T1''] ex_null_table = Inr (ex_null_table\<lparr>df_rows := []\<rparr>)"
  by (simp add: clean_def dropna_def ex_null_table_def has_sentinel_def isna_row_def
        replace_none_def)


section \<open>The container\<close>

text \<open>
  The HDF5 file as the code uses it: attributes at every level, one group per subject,
  the namespaces \<open>inputs\<close>, \<open>gt\<close> and \<open>roi\<close> in a group, one dataset per contrast in a
  namespace. Attribute sets and members are dictionaries in insertion order.
\<close>

datatype attr =
    AStr string | AStrs "string list" | ANat nat | ANats "nat list" | ARats "rat list"
  | ABool bool | ANone

record dataset =
  ds_data :: volume
  ds_attrs :: "(string \<times> attr) list"

record namespace =
  ns_attrs :: "(string \<times> attr) list"
  ns_datasets :: "(string \<times> dataset) list"

record group =
  grp_attrs :: "(string \<times> attr) list"
  grp_ns :: "(string \<times> namespace) list"

record hdf5_file =
  file_attrs :: "(string \<times> attr) list"
  file_groups :: "(string \<times> group) list"

text \<open>The dataset of a subject, a namespace and a contrast, when there is one.\<close>

definition get_dataset :: "hdf5_file \<Rightarrow> string \<Rightarrow> string \<Rightarrow> string \<Rightarrow> dataset option" where
  "get_dataset f sub ns ct =
     (case map_of (file_groups f) sub of
        None \<Rightarrow> None
      | Some g \<Rightarrow>
          (case map_of (grp_ns g) ns of
             None \<Rightarrow> None
           | Some n \<Rightarrow> map_of (ns_datasets n) ct))"

text \<open>
  \<open>hdf5_file[path]\<close> for a path \<open><subject>/<namespace>/<contrast>\<close>, the form of every
  path the index table holds. A missing member is a KeyError.
\<close>

definition lookup_dataset :: "hdf5_file \<Rightarrow> string \<Rightarrow> error + dataset" where
  "lookup_dataset f p =
     (case split_on CHR ''/'' p of
        [sub, ns, ct] \<Rightarrow>
          (case get_dataset f sub ns ct of
             None \<Rightarrow> Inl KeyError
           | Some d \<Rightarrow> Inr d)
      | _ \<Rightarrow> Inl KeyError)"

text \<open>
  \<open>dataset[np.array(slices)]\<close>, the read of a dataset at the selector of column
  \<open>Slices\<close>: one slice for a scalar index, the stack of the selected slices for an array
  of indices (h5py wants them increasing). An empty array of slices is an array of
  floats, which h5py refuses as a selector. The leading axis of the dataset is the slice.
\<close>

definition read_at :: "dataset \<Rightarrow> cell \<Rightarrow> error + array" where
  "read_at d sel =
     (case sel of
        Idx n \<Rightarrow> if n < length (ds_data d) then Inr (A2 (ds_data d ! n)) else Inl IndexError
      | IdxList ns \<Rightarrow>
          if ns = [] then Inl TypeError
          else if \<not> (sorted ns \<and> distinct ns) then Inl TypeError
          else if list_all (\<lambda>n. n < length (ds_data d)) ns
               then Inr (A3 (map (\<lambda>n. ds_data d ! n) ns))
               else Inl IndexError
      | _ \<Rightarrow> Inl TypeError)"


section \<open>HDF5Dataset\<close>

text \<open>
  The attributes of the dataset object. \<open>filter_slices\<close> is the truth value of the
  \<open>slice_filter_fn\<close> argument (None is falsy). The file system maps a path to the
  container stored there.
\<close>

record hdf5_dataset =
  cst_lst :: "string list"
  gt_lst :: "string list option"
  roi_lst :: "string list option"
  dim :: nat
  filter_slices :: bool
  path_hdf5 :: string
  initial_dataframe :: dataframe
  dataframe :: dataframe
  cst_matrix :: "nat list list"
  status :: "(string \<times> bool) list"

type_synonym filesystem = "(string \<times> hdf5_file) list"

subsection \<open>load\_into\_ram\<close>

text \<open>
  The body of the loop over the rows, for one row: only with a slice filter is the cell of
  the contrast replaced, by the array read at the row's \<open>Slices\<close>. A cell that is not a
  string cannot be used as a path.
\<close>

definition load_row :: "hdf5_file \<Rightarrow> bool \<Rightarrow> string list \<Rightarrow> string \<Rightarrow> row \<Rightarrow> error + row" where
  "load_row f filt cols ct r =
     (if filt then
        (if ''Slices'' \<notin> set cols \<or> ct \<notin> set cols then Inl KeyError
         else (case r ct of
                 Str p \<Rightarrow>
                   (case lookup_dataset f p of
                      Inl e \<Rightarrow> Inl e
                    | Inr d \<Rightarrow>
                        (case read_at d (r ''Slices'') of
                           Inl e \<Rightarrow> Inl e
                         | Inr a \<Rightarrow> Inr (r(ct := Arr a))))
               | _ \<Rightarrow> Inl TypeError))
      else Inr r)"

fun load_rows :: "hdf5_file \<Rightarrow> bool \<Rightarrow> string list \<Rightarrow> string \<Rightarrow> row list \<Rightarrow> error + row list" where
  "load_rows f filt cols ct [] = Inr []"
| "load_rows f filt cols ct (r # rs) =
     (case load_row f filt cols ct r of
        Inl e \<Rightarrow> Inl e
      | Inr r' \<Rightarrow>
          (case load_rows f filt cols ct rs of
             Inl e \<Rightarrow> Inl e
           | Inr rs' \<Rightarrow> Inr (r' # rs')))"

text \<open>
  The body of the loop over \<open>contrast_lst\<close>: an unknown contrast is skipped, a resident
  one is only logged, any other is loaded; \<open>self.status[ct] = True\<close> closes both of the
  latter branches.
\<close>

definition load_contrast :: "hdf5_file \<Rightarrow> string \<Rightarrow> hdf5_dataset \<Rightarrow> error + hdf5_dataset" where
  "load_contrast f ct ds =
     (case map_of (status ds) ct of
        None \<Rightarrow> Inr ds
      | Some resident \<Rightarrow>
          (if resident then Inr (ds\<lparr>status := AList.update ct True (status ds)\<rparr>)
           else
             (case load_rows f (filter_slices ds) (df_columns (dataframe ds)) ct
                     (df_rows (dataframe ds)) of
                Inl e \<Rightarrow> Inl e
              | Inr rows' \<Rightarrow>
                  Inr (ds\<lparr>dataframe := (dataframe ds)\<lparr>df_rows := rows'\<rparr>,
                          status := AList.update ct True (status ds)\<rparr>))))"

fun load_contrasts :: "hdf5_file \<Rightarrow> string list \<Rightarrow> hdf5_dataset \<Rightarrow> error + hdf5_dataset" where
  "load_contrasts f [] ds = Inr ds"
| "load_contrasts f (ct # cts) ds =
     (case load_contrast f ct ds of
        Inl e \<Rightarrow> Inl e
      | Inr ds' \<Rightarrow> load_contrasts f cts ds')"

text \<open>
  \<open>load_into_ram(contrast_lst)\<close>, called with a list (the default None cannot be iterated).
  Opening a file that is not there fails.
\<close>

definition load_into_ram :: "filesystem \<Rightarrow> string list \<Rightarrow> hdf5_dataset \<Rightarrow> error + hdf5_dataset" where
  "load_into_ram fs contrast_lst ds =
     (case map_of fs (path_hdf5 ds) of
        None \<Rightarrow> Inl FileNotFoundError
      | Some f \<Rightarrow> load_contrasts f contrast_lst ds)"

text \<open>
  What the claim asks of a row and its successor for a contrast: the cell was a path, and
  it now holds the array read from the container at that path and the row's selector.
\<close>

definition promoted :: "hdf5_file \<Rightarrow> string \<Rightarrow> row \<Rightarrow> row \<Rightarrow> bool" where
  "promoted f ct r r' =
     (case r ct of
        Str p \<Rightarrow>
          (case lookup_dataset f p of
             Inl e \<Rightarrow> False
           | Inr d \<Rightarrow>
               (case read_at d (r ''Slices'') of
                  Inl e \<Rightarrow> False
                | Inr a \<Rightarrow> r' ct = Arr a))
      | _ \<Rightarrow> False)"

text \<open>
  A container with one subject of two one-pixel slices, and a dataset object over it whose
  table has one row, for slice 1 of that subject.
\<close>

definition ex_file :: hdf5_file where
  "ex_file =
     \<lparr>file_attrs = [(''patients_id'', AStrs [''sub-01''])],
      file_groups =
        [(''sub-01'',
          \<lparr>grp_attrs = [(''slices'', ANats [0, 1]), (''contrast'', AStrs [''T1''])],
           grp_ns =
             [(''inputs'',
               \<lparr>ns_attrs = [(''contrast'', AStrs [''T1''])],
                ns_datasets = [(''T1'', \<lparr>ds_data = [[[1]], [[2]]], ds_attrs = []\<rparr>)]\<rparr>)]\<rparr>)]\<rparr>"

definition ex_dataframe :: dataframe where
  "ex_dataframe =
     \<lparr>df_columns = [''T1'', ''Slices'', ''Subjects''],
      df_rows = [(\<lambda>col. Str ''sub-01'')
                   (''T1'' := Str ''sub-01/inputs/T1'', ''Slices'' := Idx 1)]\<rparr>"

definition ex_dataset :: "bool \<Rightarrow> hdf5_dataset" where
  "ex_dataset filt =
     \<lparr>cst_lst = [''T1''], gt_lst = None, roi_lst = None, dim = 2, filter_slices = filt,
      path_hdf5 = ''data.hdf5'', initial_dataframe = ex_dataframe, dataframe = ex_dataframe,
      cst_matrix = [[1]], status = [(''T1'', False)]\<rparr>"

text \<open>
  The dataset object that the constructor builds over that container with its default
  arguments: no slice filter, so the row of the subject holds the empty array of useful
  slices.
\<close>

definition ex_dataset_default :: hdf5_dataset where
  "ex_dataset_default =
     \<lparr>cst_lst = [''T1''], gt_lst = None, roi_lst = None, dim = 2, filter_slices = False,
      path_hdf5 = ''data.hdf5'',
      initial_dataframe =
        \<lparr>df_columns = [''T1'', ''gt'', ''ROI'', ''Slices'', ''Subjects''],
         df_rows = [(\<lambda>col. Str ''None'')
                      (''T1'' := Str ''sub-01/inputs/T1'', ''Slices'' := IdxList [],
                       ''Subjects'' := Str ''sub-01'')]\<rparr>,
      dataframe =
        \<lparr>df_columns = [''T1'', ''gt'', ''ROI'', ''Slices'', ''Subjects''],
         df_rows = [(\<lambda>col. Str ''None'')
                      (''T1'' := Str ''sub-01/inputs/T1'', ''Slices'' := IdxList [],
                       ''Subjects'' := Str ''sub-01'')]\<rparr>,
      cst_matrix = [[1]],
      status = [(''T1'', False), (''gt'', False), (''ROI'', False)]\<rparr>"

lemma load_row_True:
  "load_row f True cols ct r = Inr r' \<Longrightarrow>
     promoted f ct r r' \<and> (\<forall>col. col \<noteq> ct \<longrightarrow> r' col = r col)"
  by (auto simp: load_row_def promoted_def split: if_splits cell.splits sum.splits)

lemma load_rows_True:
  "load_rows f True cols ct rows = Inr rows' \<Longrightarrow>
     list_all2 (\<lambda>r r'. promoted f ct r r' \<and> (\<forall>col. col \<noteq> ct \<longrightarrow> r' col = r col)) rows rows'"
proof (induction rows arbitrary: rows')
  case Nil
  then show ?case by simp
next
  case (Cons r rs)
  from Cons.prems obtain r' rs' where
    r: "load_row f True cols ct r = Inr r'" and rs: "load_rows f True cols ct rs = Inr rs'"
    and e: "rows' = r' # rs'"
    by (auto split: sum.splits)
  from load_row_True[OF r] Cons.IH[OF rs] e show ?case by simp
qed

lemma load_rows_False: "load_rows f False cols ct rows = Inr rows"
  by (induction rows) (simp_all add: load_row_def)

lemma load_rows_other:
  "load_rows f filt cols ct rows = Inr rows' \<Longrightarrow>
     list_all2 (\<lambda>r r'. \<forall>col. col \<noteq> ct \<longrightarrow> r' col = r col) rows rows'"
proof (cases filt)
  case True
  assume "load_rows f filt cols ct rows = Inr rows'"
  with True have "list_all2 (\<lambda>r r'. promoted f ct r r' \<and> (\<forall>col. col \<noteq> ct \<longrightarrow> r' col = r col)) rows rows'"
    by (simp add: load_rows_True)
  then show ?thesis by (rule list_all2_mono) simp
next
  case False
  assume "load_rows f filt cols ct rows = Inr rows'"
  with False have "rows' = rows" by (simp add: load_rows_False)
  then show ?thesis by (simp add: list_all2_same)
qed

lemma load_contrast_resident:
  "map_of (status ds) ct = Some True \<Longrightarrow> load_contrast f ct ds = Inr ds"
  by (simp add: load_contrast_def update_triv)

lemma load_contrast_unknown:
  "map_of (status ds) ct = None \<Longrightarrow> load_contrast f ct ds = Inr ds"
  by (simp add: load_contrast_def)

lemma load_contrast_other:
  assumes "load_contrast f ct' ds = Inr ds'"
  shows "(ct' \<noteq> ct \<longrightarrow> map_of (status ds') ct = map_of (status ds) ct) \<and>
         filter_slices ds' = filter_slices ds \<and>
         df_columns (dataframe ds') = df_columns (dataframe ds) \<and>
         list_all2 (\<lambda>r r'. \<forall>col. col \<noteq> ct' \<longrightarrow> r' col = r col)
           (df_rows (dataframe ds)) (df_rows (dataframe ds'))"
  using assms
  by (auto simp: load_contrast_def update_conv' list_all2_same
           split: option.splits if_splits sum.splits dest: load_rows_other)

lemma load_contrast_loads:
  assumes "load_contrast f ct ds = Inr ds'" and "map_of (status ds) ct = Some False"
    and "filter_slices ds"
  shows "map_of (status ds') ct = Some True \<and>
         list_all2 (promoted f ct) (df_rows (dataframe ds)) (df_rows (dataframe ds'))"
proof -
  from assms obtain rows' where
    l: "load_rows f True (df_columns (dataframe ds)) ct (df_rows (dataframe ds)) = Inr rows'"
    and d: "ds' = ds\<lparr>dataframe := (dataframe ds)\<lparr>df_rows := rows'\<rparr>,
                    status := AList.update ct True (status ds)\<rparr>"
    by (auto simp: load_contrast_def split: sum.splits)
  from load_rows_True[OF l]
  have "list_all2 (promoted f ct) (df_rows (dataframe ds)) rows'"
    by (rule list_all2_mono) simp
  with d show ?thesis by (simp add: update_conv')
qed

lemma load_contrasts_noop:
  "\<forall>ct\<in>set cts. map_of (status ds) ct \<noteq> Some False \<Longrightarrow> load_contrasts f cts ds = Inr ds"
proof (induction cts)
  case Nil
  then show ?case by simp
next
  case (Cons ct cts)
  then have "map_of (status ds) ct = None \<or> map_of (status ds) ct = Some True"
    by (cases "map_of (status ds) ct") auto
  then have "load_contrast f ct ds = Inr ds"
    by (auto simp: load_contrast_resident load_contrast_unknown)
  with Cons show ?case by simp
qed

lemma load_contrasts_keeps_resident:
  assumes "load_contrasts f cts ds = Inr ds'" and "map_of (status ds) ct = Some True"
  shows "map_of (status ds') ct = Some True \<and>
         list_all2 (\<lambda>r r'. r' ct = r ct) (df_rows (dataframe ds)) (df_rows (dataframe ds'))"
  using assms
proof (induction cts arbitrary: ds)
  case Nil
  then show ?case by (simp add: list_all2_same)
next
  case (Cons x cts)
  from Cons.prems(1) obtain ds1 where
    s1: "load_contrast f x ds = Inr ds1" and s2: "load_contrasts f cts ds1 = Inr ds'"
    by (auto split: sum.splits)
  show ?case
  proof (cases "x = ct")
    case True
    with s1 Cons.prems(2) have "ds1 = ds" by (simp add: load_contrast_resident)
    with Cons.IH[OF s2] Cons.prems(2) show ?thesis by simp
  next
    case False
    from load_contrast_other[OF s1, of ct] False
    have st: "map_of (status ds1) ct = Some True"
      and rows: "list_all2 (\<lambda>r r'. \<forall>col. col \<noteq> x \<longrightarrow> r' col = r col)
           (df_rows (dataframe ds)) (df_rows (dataframe ds1))"
      using Cons.prems(2) by auto
    from rows False have r1: "list_all2 (\<lambda>r r'. r' ct = r ct)
           (df_rows (dataframe ds)) (df_rows (dataframe ds1))"
      by (auto elim!: list_all2_mono)
    from Cons.IH[OF s2 st] have r2: "map_of (status ds') ct = Some True"
      "list_all2 (\<lambda>r r'. r' ct = r ct) (df_rows (dataframe ds1)) (df_rows (dataframe ds'))"
      by auto
    from list_all2_trans[of "\<lambda>r r'. r' ct = r ct" "\<lambda>r r'. r' ct = r ct" "\<lambda>r r'. r' ct = r ct", OF _ r1 r2(2)]
    have "list_all2 (\<lambda>r r'. r' ct = r ct) (df_rows (dataframe ds)) (df_rows (dataframe ds'))"
      by simp
    with r2(1) show ?thesis by simp
  qed
qed

lemma promoted_cong:
  "promoted f ct r1 r' \<Longrightarrow> r1 ct = r ct \<Longrightarrow> r1 ''Slices'' = r ''Slices'' \<Longrightarrow> promoted f ct r r'"
  by (auto simp: promoted_def split: cell.splits sum.splits)

lemma promoted_cong2:
  "promoted f ct r r1 \<Longrightarrow> r' ct = r1 ct \<Longrightarrow> promoted f ct r r'"
  by (auto simp: promoted_def split: cell.splits sum.splits)

lemma load_contrasts_promotes:
  assumes "load_contrasts f cts ds = Inr ds'" and "map_of (status ds) ct = Some False"
    and "filter_slices ds" and "ct \<in> set cts" and "map_of (status ds) ''Slices'' = None"
  shows "map_of (status ds') ct = Some True \<and>
         list_all2 (promoted f ct) (df_rows (dataframe ds)) (df_rows (dataframe ds'))"
  using assms
proof (induction cts arbitrary: ds)
  case Nil
  then show ?case by simp
next
  case (Cons x cts)
  from Cons.prems(1) obtain ds1 where
    s1: "load_contrast f x ds = Inr ds1" and s2: "load_contrasts f cts ds1 = Inr ds'"
    by (auto split: sum.splits)
  show ?case
  proof (cases "x = ct")
    case True
    from load_contrast_loads[OF s1[unfolded True] Cons.prems(2,3)]
    have st: "map_of (status ds1) ct = Some True"
      and p: "list_all2 (promoted f ct) (df_rows (dataframe ds)) (df_rows (dataframe ds1))"
      by auto
    from load_contrasts_keeps_resident[OF s2 st]
    have st': "map_of (status ds') ct = Some True"
      and k: "list_all2 (\<lambda>r r'. r' ct = r ct) (df_rows (dataframe ds1)) (df_rows (dataframe ds'))"
      by auto
    from list_all2_trans[of "promoted f ct" "\<lambda>r r'. r' ct = r ct" "promoted f ct", OF _ p k]
    have "list_all2 (promoted f ct) (df_rows (dataframe ds)) (df_rows (dataframe ds'))"
      using promoted_cong2 by blast
    with st' show ?thesis by simp
  next
    case False
    with Cons.prems(4) have in_tl: "ct \<in> set cts" by simp
    from load_contrast_other[OF s1, of ct] False Cons.prems(2,3)
    have st: "map_of (status ds1) ct = Some False" and fl: "filter_slices ds1"
      and rows: "list_all2 (\<lambda>r r'. \<forall>col. col \<noteq> x \<longrightarrow> r' col = r col)
           (df_rows (dataframe ds)) (df_rows (dataframe ds1))"
      by auto
    have sl: "map_of (status ds1) ''Slices'' = None"
    proof (cases "x = ''Slices''")
      case True
      with s1 Cons.prems(5) have "ds1 = ds" by (simp add: load_contrast_unknown)
      with Cons.prems(5) show ?thesis by simp
    next
      case False
      with load_contrast_other[OF s1, of "''Slices''"] Cons.prems(5) show ?thesis by simp
    qed
    have same: "list_all2 (\<lambda>r r'. r' ct = r ct \<and> r' ''Slices'' = r ''Slices'')
           (df_rows (dataframe ds)) (df_rows (dataframe ds1))"
    proof (cases "x = ''Slices''")
      case True
      with s1 Cons.prems(5) have "ds1 = ds" by (simp add: load_contrast_unknown)
      then show ?thesis by (simp add: list_all2_same)
    next
      case ns: False
      from rows show ?thesis
        by (rule list_all2_mono) (use False ns in auto)
    qed
    from Cons.IH[OF s2 st fl in_tl sl]
    have st': "map_of (status ds') ct = Some True"
      and p: "list_all2 (promoted f ct) (df_rows (dataframe ds1)) (df_rows (dataframe ds'))"
      by auto
    from list_all2_trans[of "\<lambda>r r'. r' ct = r ct \<and> r' ''Slices'' = r ''Slices''"
            "promoted f ct" "promoted f ct", OF _ same p]
    have "list_all2 (promoted f ct) (df_rows (dataframe ds)) (df_rows (dataframe ds'))"
      using promoted_cong by blast
    with st' show ?thesis by simp
  qed
qed


text \<open>
  What \<open>load_into_ram\<close> does when a slice filter is configured and the container file
  opens: for every contrast of the list that is a key of \<open>status\<close> and not yet resident
  (the selector column \<open>Slices\<close> not being such a key), a call that returns has replaced
  each row's path cell of the contrast by the array read from the container at that path
  and the row's \<open>Slices\<close>, and has marked the contrast resident. A call on contrasts none
  of which is known and not resident returns the dataset object as it was.
\<close>

lemma load_into_ram_promotes:
  assumes opened: "map_of fs (path_hdf5 ds) = Some f"
  shows "(filter_slices ds \<longrightarrow> load_into_ram fs cts ds = Inr ds' \<longrightarrow> ct \<in> set cts \<longrightarrow>
            map_of (status ds) ct = Some False \<longrightarrow> map_of (status ds) ''Slices'' = None \<longrightarrow>
            map_of (status ds') ct = Some True \<and>
            list_all2 (promoted f ct) (df_rows (dataframe ds)) (df_rows (dataframe ds'))) \<and>
         ((\<forall>x\<in>set cts. map_of (status ds) x \<noteq> Some False) \<longrightarrow>
            load_into_ram fs cts ds = Inr ds)"
proof (intro conjI impI)
  assume "filter_slices ds" "load_into_ram fs cts ds = Inr ds'" "ct \<in> set cts"
    "map_of (status ds) ct = Some False" "map_of (status ds) ''Slices'' = None"
  with opened have "load_contrasts f cts ds = Inr ds'"
    by (simp add: load_into_ram_def)
  from load_contrasts_promotes[OF this \<open>map_of (status ds) ct = Some False\<close>
      \<open>filter_slices ds\<close> \<open>ct \<in> set cts\<close> \<open>map_of (status ds) ''Slices'' = None\<close>]
  show "map_of (status ds') ct = Some True"
    and "list_all2 (promoted f ct) (df_rows (dataframe ds)) (df_rows (dataframe ds'))"
    by auto
next
  assume "\<forall>x\<in>set cts. map_of (status ds) x \<noteq> Some False"
  then show "load_into_ram fs cts ds = Inr ds"
    using opened by (simp add: load_into_ram_def load_contrasts_noop)
qed

lemma load_into_ram_promotes_example:
  "(\<exists>ds'. load_into_ram [(''data.hdf5'', ex_file)] [''T1''] (ex_dataset True) = Inr ds' \<and>
      map_of (status ds') ''T1'' = Some True \<and>
      map (\<lambda>r. r ''T1'') (df_rows (dataframe ds')) = [Arr (A2 [[2]])] \<and>
      load_into_ram [(''data.hdf5'', ex_file)] [''T1''] ds' = Inr ds')"
proof -
  let ?fs = "[(''data.hdf5'', ex_file)]"
  let ?ds = "ex_dataset True"
  have opened: "map_of ?fs (path_hdf5 ?ds) = Some ex_file"
    by (simp add: ex_dataset_def ex_dataframe_def)
  have "case load_into_ram ?fs [''T1''] ?ds of Inl e \<Rightarrow> False | Inr ds' \<Rightarrow> True"
    by (simp add: load_into_ram_def ex_dataset_def ex_dataframe_def ex_file_def load_contrast_def load_row_def
          lookup_dataset_def get_dataset_def read_at_def)
  then obtain ds' where run: "load_into_ram ?fs [''T1''] ?ds = Inr ds'"
    by (cases "load_into_ram ?fs [''T1''] ?ds") auto
  have hyps: "filter_slices ?ds" "''T1'' \<in> set [''T1'']" "map_of (status ?ds) ''T1'' = Some False"
    "map_of (status ?ds) ''Slices'' = None"
    by (simp_all add: ex_dataset_def ex_dataframe_def)
  from load_into_ram_promotes[OF opened, of "[''T1'']" ds' "''T1''"] run hyps
  have st: "map_of (status ds') ''T1'' = Some True"
    and pr: "list_all2 (promoted ex_file ''T1'') (df_rows (dataframe ?ds)) (df_rows (dataframe ds'))"
    by blast+
  from pr obtain r' where rows: "df_rows (dataframe ds') = [r']"
    and p: "promoted ex_file ''T1'' (hd (df_rows (dataframe ?ds))) r'"
    by (auto simp: ex_dataset_def ex_dataframe_def list_all2_Cons1)
  from p have cell: "r' ''T1'' = Arr (A2 [[2]])"
    by (simp add: promoted_def ex_dataset_def ex_dataframe_def ex_file_def lookup_dataset_def get_dataset_def read_at_def)
  have path: "path_hdf5 ds' = path_hdf5 ?ds"
    using run by (auto simp: load_into_ram_def ex_dataset_def ex_dataframe_def load_contrast_def
        split: sum.splits option.splits if_splits)
  have opened': "map_of ?fs (path_hdf5 ds') = Some ex_file"
    using opened path by simp
  have again: "load_into_ram ?fs [''T1''] ds' = Inr ds'"
    using load_into_ram_promotes[OF opened', of "[''T1'']" ds' "''T1''"] st by simp
  from run st rows cell again show ?thesis by simp
qed

text \<open>
  C4 at the constructor's default arguments (no slice filter, RAM on). The contrast T1 is
  a key of \<open>status\<close> and not resident; \<open>load_into_ram(['T1'])\<close> returns with T1 marked
  resident and the cell of T1 still the path string, not the array of the container:
  the read sits under \<open>if self.filter_slices:\<close>, the mark does not.
\<close>

theorem load_into_ram_marks_without_loading:
  "load_into_ram [(''data.hdf5'', ex_file)] [''T1''] ex_dataset_default =
     Inr (ex_dataset_default\<lparr>status := [(''T1'', True), (''gt'', False), (''ROI'', False)]\<rparr>) \<and>
   map_of (status ex_dataset_default) ''T1'' = Some False \<and>
   map (\<lambda>r. r ''T1'') (df_rows (dataframe ex_dataset_default)) = [Str ''sub-01/inputs/T1''] \<and>
   lookup_dataset ex_file ''sub-01/inputs/T1'' = Inr \<lparr>ds_data = [[[1]], [[2]]], ds_attrs = []\<rparr>"
  by (simp add: load_into_ram_def ex_dataset_default_def load_contrast_def load_row_def
        lookup_dataset_def get_dataset_def ex_file_def)


subsection \<open>update\<close>

text \<open>
  numpy's global generator is a supply of raw draws, \<open>rng\<close>, read at successive
  positions. \<open>random_sample\<close> is the 53-bit uniform sample in \<open>[0, 1)\<close> made of a raw
  draw, \<open>randint high\<close> the integer below \<open>high\<close> made of one.
\<close>

definition random_sample :: "nat \<Rightarrow> rat" where
  "random_sample raw = of_nat (raw mod 2 ^ 53) / 2 ^ 53"

definition randint :: "nat \<Rightarrow> nat \<Rightarrow> nat" where
  "randint high raw = raw mod high"

text \<open>
  \<open>np.random.choice(2, n, p=[p, 1 - p])\<close>: \<open>n\<close> samples, each mapped through the
  cumulative distribution \<open>[p, 1]\<close>, so 0 when the sample is below \<open>p\<close> and 1 otherwise.
  Probabilities outside \<open>[0, 1]\<close> are refused.
\<close>

definition choice2 :: "rat \<Rightarrow> nat \<Rightarrow> (nat \<Rightarrow> nat) \<Rightarrow> nat \<Rightarrow> error + nat list" where
  "choice2 p n rng pos =
     (if p < 0 \<or> 1 < p then Inl ValueError
      else Inr (map (\<lambda>i. if random_sample (rng (pos + i)) < p then 0 else 1) [0..<n]))"

text \<open>
  The mask of one row, with the position of the generator after it. When no contrast is
  left, \<open>missing_mod[np.random.randint(2, size=1)] = 1\<close> writes into a fresh zero vector
  of length \<open>n\<close> at an index that is 0 or 1; an index outside the vector is an IndexError.
\<close>

definition missing_mod_draw ::
  "rat \<Rightarrow> nat \<Rightarrow> (nat \<Rightarrow> nat) \<Rightarrow> nat \<Rightarrow> error + (nat list \<times> nat)" where
  "missing_mod_draw p n rng pos =
     (case choice2 p n rng pos of
        Inl e \<Rightarrow> Inl e
      | Inr missing_mod \<Rightarrow>
          if list_ex (\<lambda>x. x \<noteq> 0) missing_mod then Inr (missing_mod, pos + n)
          else (let i = randint 2 (rng (pos + n)) in
                if i < n then Inr ((replicate n 0)[i := 1], pos + n + 1)
                else Inl IndexError))"

text \<open>
  The loop over the rows; \<open>self.cst_matrix[idx, ] = missing_mod\<close> needs the row \<open>idx\<close> and
  a row of the mask's length.
\<close>

fun update_loop ::
  "rat \<Rightarrow> nat \<Rightarrow> (nat \<Rightarrow> nat) \<Rightarrow> nat list \<Rightarrow> nat \<Rightarrow> nat list list \<Rightarrow> error + nat list list" where
  "update_loop p n rng [] pos M = Inr M"
| "update_loop p n rng (idx # idxs) pos M =
     (case missing_mod_draw p n rng pos of
        Inl e \<Rightarrow> Inl e
      | Inr (missing_mod, pos') \<Rightarrow>
          if \<not> idx < length M then Inl IndexError
          else if length (M ! idx) \<noteq> n then Inl ValueError
          else update_loop p n rng idxs pos' (M[idx := missing_mod]))"

definition update :: "string \<Rightarrow> rat \<Rightarrow> (nat \<Rightarrow> nat) \<Rightarrow> hdf5_dataset \<Rightarrow> error + hdf5_dataset" where
  "update strategy p rng ds =
     (if strategy = ''Missing'' then
        (case update_loop p (length (cst_lst ds)) rng [0..<length (df_rows (dataframe ds))] 0
                (cst_matrix ds) of
           Inl e \<Rightarrow> Inl e
         | Inr M \<Rightarrow> Inr (ds\<lparr>cst_matrix := M\<rparr>))
      else Inr ds)"

text \<open>A dataset object of three input contrasts and two rows, all masks on.\<close>

definition ex_dataset3 :: hdf5_dataset where
  "ex_dataset3 =
     \<lparr>cst_lst = [''T1'', ''T2'', ''FLAIR''], gt_lst = None, roi_lst = None, dim = 2,
      filter_slices = False, path_hdf5 = ''data.hdf5'',
      initial_dataframe = \<lparr>df_columns = [], df_rows = [\<lambda>col. NaN, \<lambda>col. NaN]\<rparr>,
      dataframe = \<lparr>df_columns = [], df_rows = [\<lambda>col. NaN, \<lambda>col. NaN]\<rparr>,
      cst_matrix = [[1, 1, 1], [1, 1, 1]], status = []\<rparr>"

lemma random_sample_less_1: "random_sample raw < 1"
proof -
  have "raw mod 2 ^ 53 < (2::nat) ^ 53" by simp
  then have "(of_nat (raw mod 2 ^ 53) :: rat) < of_nat (2 ^ 53)"
    by (simp only: of_nat_less_iff)
  then show ?thesis by (simp add: random_sample_def)
qed

lemma random_sample_nonneg: "0 \<le> random_sample raw"
  by (simp add: random_sample_def)

lemma choice2_p1: "choice2 1 n rng pos = Inr (replicate n 0)"
  by (simp add: choice2_def random_sample_less_1 map_replicate_const)

lemma choice2_p0: "choice2 0 n rng pos = Inr (replicate n 1)"
proof -
  have "\<not> random_sample raw < 0" for raw
    using random_sample_nonneg[of raw] by simp
  then show ?thesis by (simp add: choice2_def map_replicate_const)
qed

lemma randint_2: "randint 2 raw < 2"
  by (simp add: randint_def)

lemma missing_mod_draw_zeroed:
  assumes "choice2 p n rng pos = Inr z" and "\<not> list_ex (\<lambda>x. x \<noteq> 0) z"
  shows "missing_mod_draw p n rng pos =
           (if randint 2 (rng (pos + n)) < n
            then Inr ((replicate n 0)[randint 2 (rng (pos + n)) := 1], pos + n + 1)
            else Inl IndexError)"
  using assms by (simp add: missing_mod_draw_def Let_def)

lemma missing_mod_draw_p1:
  "missing_mod_draw 1 n rng pos =
           (if randint 2 (rng (pos + n)) < n
            then Inr ((replicate n 0)[randint 2 (rng (pos + n)) := 1], pos + n + 1)
            else Inl IndexError)"
  by (rule missing_mod_draw_zeroed[OF choice2_p1]) (simp add: list_ex_iff)


text \<open>
  C10. When the draw of a row zeroes every contrast, the index forced back on is
  \<open>randint 2\<close> of the next raw draw, 0 or 1 whatever the number \<open>n\<close> of input contrasts,
  and the write fails when that index is not below \<open>n\<close>. In particular, for every dataset
  object with exactly one input contrast and at least one row, and every probability
  \<open>0 < p \<le> 1\<close>, some supply of draws makes \<open>update\<close> raise an IndexError: the write at
  index 1 of a mask of length 1.
\<close>

theorem forced_index_from_0_1:
  "(\<forall>p n rng pos z. choice2 p n rng pos = Inr z \<longrightarrow> \<not> list_ex (\<lambda>x. x \<noteq> 0) z \<longrightarrow>
      (\<exists>i<2. missing_mod_draw p n rng pos =
                (if i < n then Inr ((replicate n 0)[i := 1], pos + n + 1) else Inl IndexError))) \<and>
   (\<forall>ds p. length (cst_lst ds) = 1 \<longrightarrow> df_rows (dataframe ds) \<noteq> [] \<longrightarrow> 0 < p \<longrightarrow> p \<le> 1 \<longrightarrow>
      (\<exists>rng. update ''Missing'' p rng ds = Inl IndexError))"
proof (intro conjI allI impI)
  fix p n rng pos z
  assume "choice2 p n rng pos = Inr z" "\<not> list_ex (\<lambda>x. x \<noteq> 0) z"
  from missing_mod_draw_zeroed[OF this]
  have "randint 2 (rng (pos + n)) < 2 \<and> missing_mod_draw p n rng pos =
          (if randint 2 (rng (pos + n)) < n
           then Inr ((replicate n 0)[randint 2 (rng (pos + n)) := 1], pos + n + 1)
           else Inl IndexError)"
    by (simp add: randint_2)
  then show "\<exists>i<2. missing_mod_draw p n rng pos =
                (if i < n then Inr ((replicate n 0)[i := 1], pos + n + 1) else Inl IndexError)"
    by (rule exI)
next
  fix ds :: hdf5_dataset and p :: rat
  assume n: "length (cst_lst ds) = 1" and rows: "df_rows (dataframe ds) \<noteq> []"
    and p: "0 < p" "p \<le> 1"
  define rng :: "nat \<Rightarrow> nat" where "rng = (\<lambda>i. if i = 0 then 0 else 1)"
  have ch: "choice2 p 1 rng 0 = Inr [0]"
    using p by (simp add: choice2_def rng_def random_sample_def)
  have draw: "missing_mod_draw p 1 rng 0 = Inl IndexError"
    using missing_mod_draw_zeroed[OF ch] by (simp add: rng_def randint_def)
  from rows have idx: "[0..<length (df_rows (dataframe ds))] =
      0 # [Suc 0..<length (df_rows (dataframe ds))]"
    by (simp add: upt_conv_Cons)
  have "update_loop p 1 rng (0 # [Suc 0..<length (df_rows (dataframe ds))]) 0 (cst_matrix ds)
        = Inl IndexError"
    by (simp add: draw[unfolded One_nat_def])
  then have "update_loop p 1 rng [0..<length (df_rows (dataframe ds))] 0 (cst_matrix ds)
        = Inl IndexError"
    by (simp only: idx)
  then have "update ''Missing'' p rng ds = Inl IndexError"
    by (simp only: update_def n sum.case simp_thms if_True)
  then show "\<exists>rng. update ''Missing'' p rng ds = Inl IndexError"
    by (rule exI[of _ rng])
qed


theorem forced_index_from_0_1_witness:
  "choice2 1 1 (\<lambda>i. 1) 0 = Inr [0] \<and>
   missing_mod_draw 1 1 (\<lambda>i. 1) 0 = Inl IndexError \<and>
   (\<exists>rng. update ''Missing'' 1 rng (ex_dataset True) = Inl IndexError)"
proof -
  have ch: "choice2 1 1 (\<lambda>i. 1) 0 = Inr [0]"
    by (simp add: choice2_p1)
  have nz: "\<not> list_ex (\<lambda>x. x \<noteq> 0) [0::nat]" by simp
  from forced_index_from_0_1[THEN conjunct1, rule_format, OF ch nz]
  obtain i where i: "i < 2"
    "missing_mod_draw 1 1 (\<lambda>i. 1) 0 =
       (if i < 1 then Inr ((replicate 1 0)[i := 1], 0 + 1 + 1) else Inl IndexError)"
    by blast
  have "missing_mod_draw 1 1 (\<lambda>i. 1) 0 \<noteq> Inr ([1], 2)"
    by (simp add: missing_mod_draw_p1 randint_def)
  with i have a: "missing_mod_draw 1 1 (\<lambda>i. 1) 0 = Inl IndexError"
    by (cases "i < 1") simp_all
  have n: "length (cst_lst (ex_dataset True)) = 1" by (simp add: ex_dataset_def)
  have r: "df_rows (dataframe (ex_dataset True)) \<noteq> []"
    by (simp add: ex_dataset_def ex_dataframe_def)
  have "\<exists>rng. update ''Missing'' 1 rng (ex_dataset True) = Inl IndexError"
    by (rule forced_index_from_0_1[THEN conjunct2, rule_format, OF n r]) simp_all
  with ch a show ?thesis by simp
qed


text \<open>
  C3 at three input contrasts and \<open>p = 1\<close>: every draw zeroes the row, and whatever the
  supply of draws, the contrast forced back on is the first or the second; the third
  contrast is never chosen.
\<close>

theorem update_never_forces_third_contrast:
  "\<forall>rng. \<exists>ds'. update ''Missing'' 1 rng ex_dataset3 = Inr ds' \<and>
          list_all (\<lambda>m. m = [1, 0, 0] \<or> m = [0, 1, 0]) (cst_matrix ds')"
proof
  fix rng :: "nat \<Rightarrow> nat"
  have r: "randint 2 raw = 0 \<or> randint 2 raw = 1" for raw
    using randint_2[of raw] by (auto simp: less_2_cases_iff)
  have d: "missing_mod_draw 1 3 rng pos =
             Inr ((replicate 3 0)[randint 2 (rng (pos + 3)) := 1], pos + 3 + 1)" for pos
    using r[of "rng (pos + 3)"] by (auto simp: missing_mod_draw_p1)
  have m: "(replicate 3 0)[randint 2 raw := 1] = [1, 0, 0::nat] \<or>
           (replicate 3 0)[randint 2 raw := 1] = [0, 1, 0::nat]" for raw
    using r[of raw] by (auto simp: numeral_3_eq_3)
  have l: "update_loop 1 3 rng [0, 1] 0 [[1, 1, 1], [1, 1, 1]] =
        Inr [(replicate 3 0)[randint 2 (rng 3) := 1], (replicate 3 0)[randint 2 (rng 7) := 1]]"
    by (simp add: d)
  have n: "length (cst_lst ex_dataset3) = 3" by (simp add: ex_dataset3_def)
  have idx: "[0..<length (df_rows (dataframe ex_dataset3))] = [0, 1]"
    by (simp add: ex_dataset3_def upt_conv_Cons del: upt_Suc)
  have mt: "cst_matrix ex_dataset3 = [[1, 1, 1], [1, 1, 1]]" by (simp add: ex_dataset3_def)
  have u: "update ''Missing'' 1 rng ex_dataset3 =
        Inr (ex_dataset3\<lparr>cst_matrix :=
          [(replicate 3 0)[randint 2 (rng 3) := 1], (replicate 3 0)[randint 2 (rng 7) := 1]]\<rparr>)"
    unfolding update_def n idx mt l by simp
  show "\<exists>ds'. update ''Missing'' 1 rng ex_dataset3 = Inr ds' \<and>
          list_all (\<lambda>m. m = [1, 0, 0] \<or> m = [0, 1, 0]) (cst_matrix ds')"
    unfolding u using m[of "rng 3"] m[of "rng 7"] by simp
qed


section \<open>BIDStoHDF5: writing the container\<close>

text \<open>Sequencing of steps that can raise: the first exception ends the sequence.\<close>

definition bind_err :: "error + 'a \<Rightarrow> ('a \<Rightarrow> error + 'b) \<Rightarrow> error + 'b" where
  "bind_err m k = (case m of Inl e \<Rightarrow> Inl e | Inr x \<Rightarrow> k x)"

text \<open>A metadata dictionary, and \<open>metadata[key]\<close>.\<close>

type_synonym metadata = "(string \<times> attr) list"

definition get_item :: "metadata \<Rightarrow> string \<Rightarrow> error + attr" where
  "get_item md k = (case map_of md k of None \<Rightarrow> Inl KeyError | Some v \<Rightarrow> Inr v)"

text \<open>The item \<open>[0]\<close> of a list.\<close>

definition item0 :: "'a list \<Rightarrow> error + 'a" where
  "item0 xs = (case xs of x # rest \<Rightarrow> Inr x | [] \<Rightarrow> Inl IndexError)"

text \<open>
  What the external stages (\<open>SegmentationPair.get_pair_slice\<close>, the slice filter and
  \<open>apply_preprocessing_transforms\<close>) give for one slice index: the lists
  \<open>slice_seg_pair["input"]\<close>, \<open>slice_seg_pair["gt"]\<close> and \<open>roi_pair_slice["gt"]\<close> (the last two
  empty when the data is absent), the answer of the slice filter, and the metadata lists
  \<open>slice_seg_pair['input_metadata']\<close>, \<open>slice_seg_pair['gt_metadata']\<close> and
  \<open>roi_pair_slice['input_metadata']\<close>.
\<close>

record slice_result =
  sr_input :: "slice2d list"
  sr_gt :: "slice2d list"
  sr_roi :: "slice2d list"
  sr_keep :: bool
  sr_input_metadata :: "metadata list"
  sr_gt_metadata :: "metadata list"
  sr_roi_metadata :: "metadata list"

text \<open>
  \<open>(x * 255).astype(np.uint8) / 255.\<close> on a pixel, a double: the product is rounded,
  the cast truncates towards zero and wraps modulo 256, the quotient is rounded.
\<close>

definition quantize_px :: "rat \<Rightarrow> rat" where
  "quantize_px x =
     (let y = dbl (x * 255); z = (if 0 \<le> y then \<lfloor>y\<rfloor> else \<lceil>y\<rceil>)
      in dbl (of_int (z mod 256) / 255))"

definition quantize :: "slice2d \<Rightarrow> slice2d" where
  "quantize sl = map (map quantize_px) sl"

text \<open>
  The volume accumulators are Python lists that \<open>_load_filenames\<close> creates and
  \<open>_slice_seg_pair\<close> receives by reference. The heap maps a reference to the list object;
  \<open>append\<close> mutates the object, a list display \<open>[]\<close> allocates a new one.
\<close>

record py_heap =
  cells :: "nat \<Rightarrow> slice2d list"
  next_ref :: nat

definition new_list :: "py_heap \<Rightarrow> nat \<times> py_heap" where
  "new_list h = (next_ref h, \<lparr>cells = (cells h)(next_ref h := []), next_ref = Suc (next_ref h)\<rparr>)"

definition append :: "nat \<Rightarrow> slice2d \<Rightarrow> py_heap \<Rightarrow> py_heap" where
  "append r x h = h\<lparr>cells := (cells h)(r := cells h r @ [x])\<rparr>"

text \<open>
  \<open>_slice_seg_pair\<close>, for the slice \<open>idx\<close>. The parameters \<open>input_volumes\<close>, \<open>gt_volume\<close>
  and \<open>roi_volume\<close> are references. \<open>gt_volume = []\<close> binds the parameter to a new list
  and leaves the caller's list as it is; \<open>gt_volume.append(...)\<close> extends the caller's
  list. \<open>useful_slices\<close> is only ever appended to and is passed through.
\<close>

definition slice_seg_pair ::
  "bool \<Rightarrow> nat \<Rightarrow> slice_result \<Rightarrow> nat list \<Rightarrow> nat \<Rightarrow> nat \<Rightarrow> nat \<Rightarrow> py_heap
     \<Rightarrow> error + (nat list \<times> py_heap)" where
  "slice_seg_pair filt idx_pair_slice sr useful_slices input_volumes gt_volume roi_volume h =
     (let useful_slices' =
            (if filt \<and> sr_keep sr then useful_slices @ [idx_pair_slice] else useful_slices)
      in case sr_input sr of
           [] \<Rightarrow> Inl IndexError
         | x # _ \<Rightarrow>
             (let h1 = append input_volumes x h;
                  h2 = (case sr_gt sr of
                          [] \<Rightarrow> snd (new_list h1)
                        | g # _ \<Rightarrow> append gt_volume (quantize g) h1);
                  h3 = (case sr_roi sr of
                          [] \<Rightarrow> snd (new_list h2)
                        | g # _ \<Rightarrow> append roi_volume (quantize g) h2)
              in Inr (useful_slices', h3)))"

text \<open>
  The loop over \<open>range(input_data_shape[-1])\<close>. \<open>prev\<close> is the value of the variables
  \<open>slice_seg_pair\<close>, \<open>roi_pair_slice\<close>: that of the last slice processed so far.
\<close>

fun slice_loop ::
  "bool \<Rightarrow> (nat \<times> slice_result) list \<Rightarrow> nat list \<Rightarrow> nat \<Rightarrow> nat \<Rightarrow> nat
     \<Rightarrow> slice_result option \<Rightarrow> py_heap
     \<Rightarrow> error + (nat list \<times> slice_result option \<times> py_heap)" where
  "slice_loop filt [] useful iv gv rv prev h = Inr (useful, prev, h)"
| "slice_loop filt ((idx, sr) # rest) useful iv gv rv prev h =
     (case slice_seg_pair filt idx sr useful iv gv rv h of
        Inl e \<Rightarrow> Inl e
      | Inr (useful', h') \<Rightarrow> slice_loop filt rest useful' iv gv rv (Some sr) h')"


text \<open>
  Appending a contrast to an attribute \<open>contrast\<close>, as \<open>create_subgrp_metadata\<close> and
  \<open>add_grp_contrast\<close> both do: the old list is copied and the contrast appended, without a
  look at whether it is there already.
\<close>

definition append_contrast :: "string \<Rightarrow> (string \<times> attr) list \<Rightarrow> error + (string \<times> attr) list" where
  "append_contrast contrast attrs =
     (case map_of attrs ''contrast'' of
        None \<Rightarrow> Inr (AList.update ''contrast'' (AStrs [contrast]) attrs)
      | Some (AStrs l) \<Rightarrow> Inr (AList.update ''contrast'' (AStrs (l @ [contrast])) attrs)
      | Some _ \<Rightarrow> Inl TypeError)"

definition create_subgrp_metadata :: "string \<Rightarrow> string \<Rightarrow> group \<Rightarrow> error + group" where
  "create_subgrp_metadata grp_key contrast grp =
     (case map_of (grp_ns grp) grp_key of
        None \<Rightarrow> Inl KeyError
      | Some n \<Rightarrow>
          bind_err (append_contrast contrast (ns_attrs n))
            (\<lambda>a. Inr (grp\<lparr>grp_ns := AList.update grp_key (n\<lparr>ns_attrs := a\<rparr>) (grp_ns grp)\<rparr>)))"

definition add_grp_contrast :: "string \<Rightarrow> group \<Rightarrow> error + group" where
  "add_grp_contrast contrast grp =
     bind_err (append_contrast contrast (grp_attrs grp)) (\<lambda>a. Inr (grp\<lparr>grp_attrs := a\<rparr>))"

text \<open>
  \<open>grp.create_dataset("<namespace>/<contrast>", data=...)\<close>: the namespace is created on
  the way when it is missing; h5py refuses a name that exists.
\<close>

definition create_dataset :: "string \<Rightarrow> string \<Rightarrow> volume \<Rightarrow> group \<Rightarrow> error + group" where
  "create_dataset ns contrast data grp =
     (let n = (case map_of (grp_ns grp) ns of
                 None \<Rightarrow> \<lparr>ns_attrs = [], ns_datasets = []\<rparr>
               | Some n \<Rightarrow> n)
      in if map_of (ns_datasets n) contrast \<noteq> None then Inl ValueError
         else Inr (grp\<lparr>grp_ns := AList.update ns
                 (n\<lparr>ns_datasets := ns_datasets n @ [(contrast, \<lparr>ds_data = data, ds_attrs = []\<rparr>)]\<rparr>)
                 (grp_ns grp)\<rparr>))"

text \<open>\<open>grp["<namespace>/<contrast>"].attrs[k] = v\<close>.\<close>

definition set_dataset_attr :: "string \<Rightarrow> string \<Rightarrow> string \<Rightarrow> attr \<Rightarrow> group \<Rightarrow> error + group" where
  "set_dataset_attr ns contrast k v grp =
     (case map_of (grp_ns grp) ns of
        None \<Rightarrow> Inl KeyError
      | Some n \<Rightarrow>
          (case map_of (ns_datasets n) contrast of
             None \<Rightarrow> Inl KeyError
           | Some d \<Rightarrow>
               Inr (grp\<lparr>grp_ns := AList.update ns
                      (n\<lparr>ns_datasets := AList.update contrast
                            (d\<lparr>ds_attrs := AList.update k v (ds_attrs d)\<rparr>) (ns_datasets n)\<rparr>)
                      (grp_ns grp)\<rparr>)))"

text \<open>Copying an optional key of the metadata, as the \<open>if\<close>s of \<open>create_metadata\<close> do.\<close>

definition copy_optional :: "string \<Rightarrow> string \<Rightarrow> metadata \<Rightarrow> string \<Rightarrow> bool \<Rightarrow> group \<Rightarrow> error + group" where
  "copy_optional ns contrast md k not_none grp =
     (case map_of md k of
        None \<Rightarrow> Inr grp
      | Some v \<Rightarrow> if not_none \<and> v = ANone then Inr grp
                  else set_dataset_attr ns contrast k v grp)"

definition create_metadata :: "string \<Rightarrow> string \<Rightarrow> metadata \<Rightarrow> group \<Rightarrow> error + group" where
  "create_metadata ns contrast md grp =
     bind_err (get_item md ''data_type'') (\<lambda>dt.
     bind_err (set_dataset_attr ns contrast ''data_type'' dt grp) (\<lambda>g1.
     bind_err (copy_optional ns contrast md ''zooms'' False g1) (\<lambda>g2.
     bind_err (copy_optional ns contrast md ''data_shape'' False g2) (\<lambda>g3.
     copy_optional ns contrast md ''bounding_box'' True g3))))"

text \<open>
  Creating one dataset with what follows it in \<open>_load_filenames\<close>: the namespace's
  contrast list, the filenames attribute (\<open>fkey\<close>, read from \<open>fmd[fsrc]\<close>) and the
  metadata.
\<close>

definition write_dataset ::
  "string \<Rightarrow> string \<Rightarrow> volume \<Rightarrow> string \<Rightarrow> metadata \<Rightarrow> string \<Rightarrow> metadata \<Rightarrow> group
     \<Rightarrow> error + group" where
  "write_dataset ns contrast data fkey fmd fsrc md grp =
     bind_err (create_dataset ns contrast data grp) (\<lambda>g1.
     bind_err (create_subgrp_metadata ns contrast g1) (\<lambda>g2.
     bind_err (get_item fmd fsrc) (\<lambda>fn.
     bind_err (set_dataset_attr ns contrast fkey fn g2) (\<lambda>g3.
     create_metadata ns contrast md g3))))"

text \<open>
  The block "Creating datasets and metadata" of \<open>_load_filenames\<close>: the three datasets
  of the contrast, then the contrast list of the group.
\<close>

definition write_volumes ::
  "string \<Rightarrow> volume \<Rightarrow> volume \<Rightarrow> volume \<Rightarrow> metadata \<Rightarrow> metadata \<Rightarrow> metadata \<Rightarrow> group
     \<Rightarrow> error + group" where
  "write_volumes contrast input_volumes gt_volume roi_volume input_metadata gt_metadata
       roi_metadata grp =
     bind_err (write_dataset ''inputs'' contrast input_volumes
                 ''input_filenames'' input_metadata ''input_filenames'' input_metadata grp) (\<lambda>g1.
     bind_err (write_dataset ''gt'' contrast gt_volume
                 ''gt_filenames'' input_metadata ''gt_filenames'' gt_metadata g1) (\<lambda>g2.
     bind_err (write_dataset ''roi'' contrast roi_volume
                 ''roi_filename'' roi_metadata ''gt_filenames'' roi_metadata g2) (\<lambda>g3.
     add_grp_contrast contrast g3)))"

text \<open>
  \<open>grp.attrs['slices']\<close>: the useful slices, or \<open>list(set(...))\<close> of their concatenation
  with the slices already there. The order in which Python lists a set is the
  parameter \<open>list_of_set\<close>.
\<close>

definition set_slices :: "(nat set \<Rightarrow> nat list) \<Rightarrow> nat list \<Rightarrow> group \<Rightarrow> error + group" where
  "set_slices list_of_set useful_slices grp =
     (case map_of (grp_attrs grp) ''slices'' of
        None \<Rightarrow> Inr (grp\<lparr>grp_attrs := AList.update ''slices'' (ANats useful_slices) (grp_attrs grp)\<rparr>)
      | Some (ANats old) \<Rightarrow>
          Inr (grp\<lparr>grp_attrs := AList.update ''slices''
                 (ANats (list_of_set (set (old @ useful_slices)))) (grp_attrs grp)\<rparr>)
      | Some _ \<Rightarrow> Inl TypeError)"

text \<open>
  The body of the loop of \<open>_load_filenames\<close> for one entry of \<open>filename_pairs\<close>, from the
  comment "Getting metadata using the one from the last slice" on: \<open>sr\<close> is the value of
  \<open>slice_seg_pair\<close>, \<open>roi_pair_slice\<close> after the loop over the slices, the volumes are the
  lists the accumulators hold then. With no input slice the entry is left after the update
  of the attribute \<open>slices\<close> (\<open>continue\<close>).
\<close>

definition write_subject ::
  "(nat set \<Rightarrow> nat list) \<Rightarrow> string \<Rightarrow> group \<Rightarrow> nat list \<Rightarrow> slice_result
     \<Rightarrow> volume \<Rightarrow> volume \<Rightarrow> volume \<Rightarrow> hdf5_file \<Rightarrow> error + hdf5_file" where
  "write_subject list_of_set subject_id grp useful_slices sr input_volumes gt_volume
       roi_volume f =
     bind_err (item0 (sr_input_metadata sr)) (\<lambda>input_metadata.
     bind_err (item0 (sr_gt_metadata sr)) (\<lambda>gt_metadata.
     bind_err (item0 (sr_roi_metadata sr)) (\<lambda>roi_metadata.
     bind_err (set_slices list_of_set useful_slices grp) (\<lambda>g0.
     bind_err (get_item input_metadata ''contrast'') (\<lambda>ct.
       case ct of
         AStr contrast \<Rightarrow>
           if length input_volumes < 1
           then Inr (f\<lparr>file_groups := AList.update subject_id g0 (file_groups f)\<rparr>)
           else
             bind_err (write_volumes contrast input_volumes gt_volume roi_volume
                         input_metadata gt_metadata roi_metadata g0) (\<lambda>g4.
               Inr (f\<lparr>file_groups := AList.update subject_id g4 (file_groups f)\<rparr>))
       | _ \<Rightarrow> Inl TypeError)))))"

text \<open>
  The whole body of the loop for one entry: the group is fetched or created, the three
  accumulators are new lists, the slices are gone through, and the result is written.
  \<open>slices_of\<close> is the external pipeline of the entry. The state is the open file and the
  loop-carried variables \<open>slice_seg_pair\<close>, \<open>roi_pair_slice\<close> (unbound before the first
  slice of the run: a NameError when read).
\<close>

definition load_pair ::
  "(nat set \<Rightarrow> nat list) \<Rightarrow> (filename_pair \<Rightarrow> slice_result list) \<Rightarrow> bool \<Rightarrow> filename_pair
     \<Rightarrow> hdf5_file \<times> slice_result option \<Rightarrow> error + (hdf5_file \<times> slice_result option)" where
  "load_pair list_of_set slices_of filt pair st =
     (let (f, prev) = st;
          subject_id = fp_subj_id pair;
          grp = (case map_of (file_groups f) subject_id of
                   None \<Rightarrow> \<lparr>grp_attrs = [], grp_ns = []\<rparr>
                 | Some g \<Rightarrow> g);
          (input_volumes, h1) = new_list \<lparr>cells = (\<lambda>r. []), next_ref = 0\<rparr>;
          (gt_volume, h2) = new_list h1;
          (roi_volume, h3) = new_list h2
      in bind_err (slice_loop filt (enumerate 0 (slices_of pair)) []
                     input_volumes gt_volume roi_volume prev h3)
           (\<lambda>(useful_slices, prev', h).
              case prev' of
                None \<Rightarrow> Inl NameError
              | Some sr \<Rightarrow>
                  bind_err (write_subject list_of_set subject_id grp useful_slices sr
                              (cells h input_volumes) (cells h gt_volume) (cells h roi_volume) f)
                    (\<lambda>f'. Inr (f', prev'))))"

fun load_pairs ::
  "(nat set \<Rightarrow> nat list) \<Rightarrow> (filename_pair \<Rightarrow> slice_result list) \<Rightarrow> bool \<Rightarrow> filename_pair list
     \<Rightarrow> hdf5_file \<times> slice_result option \<Rightarrow> error + (hdf5_file \<times> slice_result option)" where
  "load_pairs list_of_set slices_of filt [] st = Inr st"
| "load_pairs list_of_set slices_of filt (pair # pairs) st =
     (case load_pair list_of_set slices_of filt pair st of
        Inl e \<Rightarrow> Inl e
      | Inr st' \<Rightarrow> load_pairs list_of_set slices_of filt pairs st')"

text \<open>\<open>_load_filenames\<close>: the loop over \<open>self.filename_pairs\<close> on the opened file.\<close>

definition load_filenames ::
  "(nat set \<Rightarrow> nat list) \<Rightarrow> (filename_pair \<Rightarrow> slice_result list) \<Rightarrow> bool
     \<Rightarrow> filename_pair list \<Rightarrow> hdf5_file \<Rightarrow> error + hdf5_file" where
  "load_filenames list_of_set slices_of filt pairs f =
     bind_err (load_pairs list_of_set slices_of filt pairs (f, None)) (\<lambda>(f', prev). Inr f')"


text \<open>The names of the datasets of a namespace of a group, and its contrast list.\<close>

definition ns_keys :: "group \<Rightarrow> string \<Rightarrow> string set" where
  "ns_keys grp ns =
     (case map_of (grp_ns grp) ns of None \<Rightarrow> {} | Some n \<Rightarrow> fst ` set (ns_datasets n))"







text \<open>
  A pipeline for the examples: every entry is a volume of two slices of one pixel, with a
  ground truth on every slice and no ROI; the metadata of a slice name the contrast of
  the entry's metadata and the entry's files.
\<close>

definition ex_slice :: "filename_pair \<Rightarrow> slice_result" where
  "ex_slice pair =
     \<lparr>sr_input = [[[1]]], sr_gt = [[[1]]], sr_roi = [], sr_keep = True,
      sr_input_metadata =
        [[(''contrast'', AStr (concat (map md_contrast (take 1 (fp_metadata pair))))),
          (''data_type'', AStr ''im''),
          (''input_filenames'', AStrs (fp_input pair)),
          (''gt_filenames'', AStrs (List.map_filter id (fp_target pair)))]],
      sr_gt_metadata = [[(''data_type'', AStr ''gt'')]],
      sr_roi_metadata = [[(''data_type'', AStr ''roi''), (''gt_filenames'', AStrs [])]]\<rparr>"

definition ex_slices_of :: "filename_pair \<Rightarrow> slice_result list" where
  "ex_slices_of pair = [ex_slice pair, ex_slice pair]"



subsection \<open>What the converter writes\<close>














































lemma write_volumes_refuses_existing:
  assumes "ct \<in> ns_keys g ''inputs''"
  shows "write_volumes ct iv gv rv im gm rm g = Inl ValueError"
proof -
  from assms obtain n where n: "map_of (grp_ns g) ''inputs'' = Some n"
    and k: "ct \<in> fst ` set (ns_datasets n)"
    by (auto simp: ns_keys_def split: option.splits)
  from k have "map_of (ns_datasets n) ct \<noteq> None"
    by (simp add: map_of_eq_None_iff)
  with n have "create_dataset ''inputs'' ct iv g = Inl ValueError"
    by (simp add: create_dataset_def)
  then show ?thesis
    by (simp add: write_volumes_def write_dataset_def bind_err_def)
qed








section \<open>BIDStoHDF5 and HDF5Dataset: creating or reusing the container\<close>

text \<open>
  What \<open>hdf5_file.attrs['metadata_choice'] = metadata_choice\<close> stores.
\<close>

definition metadata_choice_attr :: "metadata_choice \<Rightarrow> attr" where
  "metadata_choice_attr mc =
     (case mc of MriParams \<Rightarrow> AStr ''mri_params'' | Contrasts \<Rightarrow> AStr ''contrasts''
      | NoChoice \<Rightarrow> ABool False)"

text \<open>
  \<open>BIDStoHDF5.__init__\<close>, on a file system that maps a path to the container stored
  there. \<open>transform\<close> is unpacked into two names (None, the default, cannot be). After the
  subject loop the file is opened in mode \<open>w\<close>, which creates it or empties the one that
  is there, its attributes are written, and \<open>_load_filenames\<close> fills it. The order in which
  \<open>list(set(list_patients))\<close> lists the subjects is the parameter \<open>list_of_strs\<close>.
\<close>

definition bids_to_hdf5 ::
  "matcher \<Rightarrow> matcher \<Rightarrow> (string set \<Rightarrow> string list) \<Rightarrow> (nat set \<Rightarrow> nat list)
     \<Rightarrow> (filename_pair \<Rightarrow> slice_result list)
     \<Rightarrow> bids_row list \<Rightarrow> string list \<Rightarrow> string list \<Rightarrow> string \<Rightarrow> (string \<times> rat) list option
     \<Rightarrow> nat \<Rightarrow> metadata_choice \<Rightarrow> bool \<Rightarrow> string option \<Rightarrow> 't option
     \<Rightarrow> (string \<times> nat list list) list \<Rightarrow> filesystem \<Rightarrow> error + filesystem" where
  "bids_to_hdf5 fullmatch search list_of_strs list_of_set slices_of
       bids_df subject_file_lst target_suffix hdf5_path contrast_balance slice_axis
       metadata_choice slice_filter_fn roi_suffix transform bounding_box_dict fs =
     (case transform of
        None \<Rightarrow> Inl TypeError
      | Some tr \<Rightarrow>
          bind_err (select_subjects fullmatch search bids_df subject_file_lst target_suffix
                      contrast_balance roi_suffix bounding_box_dict metadata_choice) (\<lambda>st.
            let hdf5_file =
                  \<lparr>file_attrs =
                     [(''patients_id'', AStrs (list_of_strs (set (list_patients st)))),
                      (''slice_axis'', ANat slice_axis),
                      (''slice_filter_fn'', AStrs [''filter_empty_input'', ''filter_empty_mask'']),
                      (''metadata_choice'', metadata_choice_attr metadata_choice)],
                   file_groups = []\<rparr>
            in bind_err (load_filenames list_of_set slices_of slice_filter_fn
                           (filename_pairs st) hdf5_file) (\<lambda>f.
                 Inr (AList.update hdf5_path f fs))))"

text \<open>
  The arguments \<open>model_params\<close> and \<open>contrast_params\<close> of \<open>HDF5Dataset.__init__\<close>, with the
  keys that the constructor reads before the container is there; None is a missing key.
\<close>

record model_params =
  mp_path_hdf5 :: "string option"

record contrast_params =
  cp_contrast_lst :: "string list option"
  cp_balance :: "(string \<times> rat) list option"

text \<open>
  \<open>HDF5Dataset.__init__\<close> down to the comment "Loading dataframe object": the result is
  \<open>self.path_hdf5\<close> and the file system. Only when nothing exists at the path is the
  converter run. What follows in the constructor opens the file in mode \<open>r\<close>.
\<close>

definition hdf5_dataset_container ::
  "matcher \<Rightarrow> matcher \<Rightarrow> (string set \<Rightarrow> string list) \<Rightarrow> (nat set \<Rightarrow> nat list)
     \<Rightarrow> (filename_pair \<Rightarrow> slice_result list)
     \<Rightarrow> bids_row list \<Rightarrow> string list \<Rightarrow> model_params \<Rightarrow> string list \<Rightarrow> contrast_params
     \<Rightarrow> nat \<Rightarrow> 't option \<Rightarrow> metadata_choice \<Rightarrow> bool \<Rightarrow> string option
     \<Rightarrow> (string \<times> nat list list) list \<Rightarrow> filesystem \<Rightarrow> error + (string \<times> filesystem)" where
  "hdf5_dataset_container fullmatch search list_of_strs list_of_set slices_of
       bids_df subject_file_lst model_params target_suffix contrast_params slice_axis transform
       metadata_choice slice_filter_fn roi_suffix bounding_box_dict fs =
     (case cp_contrast_lst contrast_params of
        None \<Rightarrow> Inl KeyError
      | Some cst \<Rightarrow>
          (case transform of
             None \<Rightarrow> Inl TypeError
           | Some tr \<Rightarrow>
               (case mp_path_hdf5 model_params of
                  None \<Rightarrow> Inl KeyError
                | Some p \<Rightarrow>
                    if map_of fs p = None then
                      (case cp_balance contrast_params of
                         None \<Rightarrow> Inl KeyError
                       | Some bal \<Rightarrow>
                           bind_err (bids_to_hdf5 fullmatch search list_of_strs list_of_set
                                       slices_of bids_df subject_file_lst target_suffix p
                                       (Some bal) slice_axis metadata_choice slice_filter_fn
                                       roi_suffix transform bounding_box_dict fs)
                             (\<lambda>fs'. Inr (p, fs')))
                    else Inr (p, fs))))"

definition ex_fs :: filesystem where
  "ex_fs = [(''data.hdf5'', ex_file)]"

text \<open>
  C6. When a container exists at the configured path, the constructor of \<open>HDF5Dataset\<close>
  runs no conversion and leaves the file system as it is, whatever the index table, the
  subject list and the other arguments of the conversion: every result it returns is the
  path with the unchanged file system, and it does return when the contrast list and
  the transforms are given.
\<close>

theorem existing_container_is_reused:
  assumes "mp_path_hdf5 model_params = Some p" and "map_of fs p = Some f"
  shows "(\<forall>r. hdf5_dataset_container fullmatch search list_of_strs list_of_set slices_of
                bids_df subject_file_lst model_params target_suffix contrast_params slice_axis
                transform metadata_choice slice_filter_fn roi_suffix bounding_box_dict fs = Inr r
              \<longrightarrow> r = (p, fs)) \<and>
         (cp_contrast_lst contrast_params \<noteq> None \<and> transform \<noteq> None \<longrightarrow>
            hdf5_dataset_container fullmatch search list_of_strs list_of_set slices_of
              bids_df subject_file_lst model_params target_suffix contrast_params slice_axis
              transform metadata_choice slice_filter_fn roi_suffix bounding_box_dict fs
            = Inr (p, fs))"
  using assms
  by (auto simp: hdf5_dataset_container_def split: option.splits)

theorem existing_container_is_reused_witness:
  "mp_path_hdf5 \<lparr>mp_path_hdf5 = Some ''data.hdf5''\<rparr> = Some ''data.hdf5'' \<and>
   map_of ex_fs ''data.hdf5'' = Some ex_file \<and>
   hdf5_dataset_container simple_fullmatch simple_search sorted_list_of_set sorted_list_of_set
     ex_slices_of ex_bids ex_subjects \<lparr>mp_path_hdf5 = Some ''data.hdf5''\<rparr> [''_seg'']
     \<lparr>cp_contrast_lst = Some [''T1''], cp_balance = Some []\<rparr> 2 (Some ()) NoChoice True
     None [] ex_fs = Inr (''data.hdf5'', ex_fs)"
proof -
  have p: "mp_path_hdf5 \<lparr>mp_path_hdf5 = Some ''data.hdf5''\<rparr> = Some ''data.hdf5''" by simp
  have e: "map_of ex_fs ''data.hdf5'' = Some ex_file" by (simp add: ex_fs_def)
  from existing_container_is_reused[OF p e, THEN conjunct2,
      of "\<lparr>cp_contrast_lst = Some [''T1''], cp_balance = Some []\<rparr>" "Some ()"]
  have "hdf5_dataset_container simple_fullmatch simple_search sorted_list_of_set
     sorted_list_of_set
     ex_slices_of ex_bids ex_subjects \<lparr>mp_path_hdf5 = Some ''data.hdf5''\<rparr> [''_seg'']
     \<lparr>cp_contrast_lst = Some [''T1''], cp_balance = Some []\<rparr> 2 (Some ()) NoChoice True
     None [] ex_fs = Inr (''data.hdf5'', ex_fs)"
    by simp
  with p e show ?thesis by simp
qed

text \<open>
  C6 as stated fails for a conversion run on its own: \<open>BIDStoHDF5\<close> makes no check and
  opens the path in mode \<open>w\<close>. Run on the path of a container that holds subject
  \<open>sub-01\<close>, with an index table of the subjects \<open>a\<close> and \<open>b\<close>, it leaves a container that
  holds subject \<open>b\<close> alone.
\<close>

theorem converter_rerun_replaces_container:
  "map_of ex_fs ''data.hdf5'' = Some ex_file \<and>
   map fst (file_groups ex_file) = [''sub-01''] \<and>
   (\<exists>fs' f'. bids_to_hdf5 simple_fullmatch simple_search sorted_list_of_set sorted_list_of_set
                ex_slices_of ex_bids ex_subjects [''_seg''] ''data.hdf5'' (Some []) 2 NoChoice
                True None (Some ()) [] ex_fs = Inr fs' \<and>
              map_of fs' ''data.hdf5'' = Some f' \<and>
              map fst (file_groups f') = [''b''])"
proof -
  let ?run = "bids_to_hdf5 simple_fullmatch simple_search sorted_list_of_set sorted_list_of_set
                ex_slices_of ex_bids ex_subjects [''_seg''] ''data.hdf5'' (Some []) 2 NoChoice
                True None (Some ()) [] ex_fs"
  have "case ?run of Inl e \<Rightarrow> False
        | Inr fs' \<Rightarrow> (case map_of fs' ''data.hdf5'' of None \<Rightarrow> False
                       | Some f' \<Rightarrow> map fst (file_groups f') = [''b''])"
    by code_simp
  then have "\<exists>fs' f'. ?run = Inr fs' \<and> map_of fs' ''data.hdf5'' = Some f' \<and>
              map fst (file_groups f') = [''b'']"
    by (auto split: sum.splits option.splits)
  moreover have "map_of ex_fs ''data.hdf5'' = Some ex_file"
    by (simp add: ex_fs_def)
  moreover have "map fst (file_groups ex_file) = [''sub-01'']"
    by (simp add: ex_file_def)
  ultimately show ?thesis by blast
qed
end
